theory Spec2Isabelle
  imports Main "HOL-Library.Word"
begin

unbundle bit_operations_syntax

section \<open>The messaging layer: \<^verbatim>\<open>src/communication/communicator.cc\<close>\<close>

subsection \<open>Scalars and the constants of the header\<close>

text \<open>
  Modelled from the spec: the types \<^verbatim>\<open>node_id_t\<close>, \<^verbatim>\<open>com_tags\<close> and \<^verbatim>\<open>tid_t\<close> are declared in
  headers that are not among the sources. The spec calls a node id and a tensor id
  integers, with the tensor id \<open>-1\<close> reserved. Node ids are only compared and passed on,
  never computed with, so they are integers here. Tags and tensor ids are taken to be
  \<^verbatim>\<open>int32_t\<close>: the communicator adds \<^verbatim>\<open>FREE_TAG\<close> to a tag, and the addition wraps around at
  32 bits; a tensor id is stored in four bytes.
\<close>

type_synonym node_id_t = int
type_synonym com_tags = "32 word"
type_synonym tid_t = "32 word"
type_synonym byte = "8 word"

text \<open>
  The constants \<^verbatim>\<open>SEND_CMD_TAG\<close>, \<^verbatim>\<open>FORWARD_CMD_TAG\<close>, \<^verbatim>\<open>NOTIFY_TENSOR_TAG\<close>, \<^verbatim>\<open>FREE_TAG\<close>
  and \<^verbatim>\<open>ANY_NODE\<close> are declared in \<^verbatim>\<open>communicator.h\<close>, which is not among the sources.
  Their values are parameters of every function below.
\<close>

record com_constants =
  SEND_CMD_TAG :: com_tags
  FORWARD_CMD_TAG :: com_tags
  NOTIFY_TENSOR_TAG :: com_tags
  FREE_TAG :: com_tags
  ANY_NODE :: node_id_t

definition sizeof_tid :: nat where
  "sizeof_tid = 4"

text \<open>The object representation of a tensor id (least significant byte first) and back.\<close>

definition bytes_of_tid :: "tid_t \<Rightarrow> byte list" where
  "bytes_of_tid x = [ucast x, ucast (drop_bit 8 x), ucast (drop_bit 16 x), ucast (drop_bit 24 x)]"

definition tid_of_bytes :: "byte \<Rightarrow> byte \<Rightarrow> byte \<Rightarrow> byte \<Rightarrow> tid_t" where
  "tid_of_bytes b0 b1 b2 b3 =
     ucast b0 OR push_bit 8 (ucast b1) OR push_bit 16 (ucast b2) OR push_bit 24 (ucast b3)"

definition bytes_of_tids :: "tid_t list \<Rightarrow> byte list" where
  "bytes_of_tids xs = concat (map bytes_of_tid xs)"

text \<open>
  Reading a \<^verbatim>\<open>std::vector<tid_t>\<close> back from its storage: one id per four bytes. The
  vectors of the source always own a whole number of ids; a shorter rest holds none.
\<close>

fun tids_of_bytes :: "byte list \<Rightarrow> tid_t list" where
  "tids_of_bytes (b0 # b1 # b2 # b3 # bs) = tid_of_bytes b0 b1 b2 b3 # tids_of_bytes bs"
| "tids_of_bytes bs = []"

subsection \<open>The transport\<close>

text \<open>
  The transport (MPI) is outside the repository. It is modelled by what the spec's
  transport contract asks of it: point-to-point messages that carry source, destination,
  tag and bytes; a send that hands its message to the transport; a matched probe that
  takes the oldest pending message for the caller with the asked source and tag, or
  waits for one; a receive that delivers the bytes of a probed message. Every call
  returns \<^verbatim>\<open>MPI_SUCCESS\<close> or an error code: \<open>fails w k\<close> says that the \<open>k\<close>-th call in the
  world \<open>w\<close> returns an error, and a call that does so has no other effect. The calls made
  are kept, with their results, in \<open>trace\<close>.

  A send and a blocking receive take their count as an \<^verbatim>\<open>int\<close>. A send with a negative
  count is an error; otherwise it hands over the first \<open>count\<close> bytes of its buffer. A
  call is kept in \<open>trace\<close> with the buffer and the size as the source writes them. The
  rendezvous of a synchronous send (it returns only once the receiver has started to
  receive) is not modelled: the send hands over its message and returns.
\<close>

record envelope =
  src :: node_id_t
  dst :: node_id_t
  wire_tag :: com_tags
  payload :: "byte list"

datatype mpi_call =
    Ssend node_id_t node_id_t com_tags "byte list"
  | Isend node_id_t node_id_t com_tags "byte list"
  | Wait nat
  | Recv node_id_t node_id_t com_tags nat
  | Mprobe node_id_t node_id_t com_tags
  | Mrecv node_id_t nat

record mpi_world =
  pending :: "envelope list"
  fails :: "nat \<Rightarrow> bool"
  trace :: "(mpi_call \<times> bool) list"

text \<open>
  What a call into the communicator can do: never return, because it waits in the given
  transport call for a message that is not there; write, in the given transport call,
  past the end of the buffer it receives into, after which nothing is defined; or return
  a value and leave a world.
\<close>

datatype 'a outcome = Blocks mpi_call | Overrun mpi_call | Returns 'a mpi_world

definition answer :: "mpi_world \<Rightarrow> bool" where
  "answer w = (\<not> fails w (length (trace w)))"

definition record_call :: "mpi_call \<Rightarrow> bool \<Rightarrow> mpi_world \<Rightarrow> mpi_world" where
  "record_call c ok w = w\<lparr>trace := trace w @ [(c, ok)]\<rparr>"

definition post :: "envelope \<Rightarrow> mpi_world \<Rightarrow> mpi_world" where
  "post e w = w\<lparr>pending := pending w @ [e]\<rparr>"

definition matches :: "com_constants \<Rightarrow> node_id_t \<Rightarrow> node_id_t \<Rightarrow> com_tags \<Rightarrow> envelope \<Rightarrow> bool" where
  "matches K me source tg e = (dst e = me \<and> (source = ANY_NODE K \<or> src e = source) \<and> wire_tag e = tg)"

text \<open>
  Where the source passes a \<^verbatim>\<open>size_t\<close> for the \<^verbatim>\<open>int\<close> count of the transport, or casts it to
  \<^verbatim>\<open>int32_t\<close>, the value is converted: its low 32 bits, read as a signed number.
\<close>

definition int_count :: "nat \<Rightarrow> int" where
  "int_count n =
     (if n mod 2 ^ 32 < 2 ^ 31 then int (n mod 2 ^ 32) else int (n mod 2 ^ 32) - 2 ^ 32)"

definition MPI_Ssend :: "node_id_t \<Rightarrow> byte list \<Rightarrow> int \<Rightarrow> node_id_t \<Rightarrow> com_tags \<Rightarrow> mpi_world \<Rightarrow> bool \<times> mpi_world" where
  "MPI_Ssend me bs count dest tg w =
     (if answer w \<and> 0 \<le> count
      then (True, record_call (Ssend me dest tg bs) True
                    (post \<lparr>src = me, dst = dest, wire_tag = tg, payload = take (nat count) bs\<rparr> w))
      else (False, record_call (Ssend me dest tg bs) False w))"

text \<open>The request handle of a non-blocking send is the number of the call that made it.\<close>

definition MPI_Isend :: "node_id_t \<Rightarrow> byte list \<Rightarrow> int \<Rightarrow> node_id_t \<Rightarrow> com_tags \<Rightarrow> mpi_world \<Rightarrow> (bool \<times> nat) \<times> mpi_world" where
  "MPI_Isend me bs count dest tg w =
     (if answer w \<and> 0 \<le> count
      then ((True, length (trace w)), record_call (Isend me dest tg bs) True
                    (post \<lparr>src = me, dst = dest, wire_tag = tg, payload = take (nat count) bs\<rparr> w))
      else ((False, length (trace w)), record_call (Isend me dest tg bs) False w))"

definition MPI_Wait :: "nat \<Rightarrow> mpi_world \<Rightarrow> bool \<times> mpi_world" where
  "MPI_Wait r w = (answer w, record_call (Wait r) (answer w) w)"

text \<open>
  A matched probe returns the message it took out of the pending ones: the handle
  through which it is received, and the status that tells its source, tag and length.
\<close>

definition MPI_Mprobe :: "com_constants \<Rightarrow> node_id_t \<Rightarrow> node_id_t \<Rightarrow> com_tags \<Rightarrow> mpi_world \<Rightarrow> envelope option outcome" where
  "MPI_Mprobe K me source tg w =
     (if \<not> answer w then Returns None (record_call (Mprobe me source tg) False w)
      else case find (matches K me source tg) (pending w) of
             None \<Rightarrow> Blocks (Mprobe me source tg)
           | Some e \<Rightarrow> Returns (Some e)
                (record_call (Mprobe me source tg) True (w\<lparr>pending := remove1 e (pending w)\<rparr>)))"

definition MPI_Get_count :: "envelope \<Rightarrow> nat" where
  "MPI_Get_count e = length (payload e)"

text \<open>
  Receiving a probed message into a buffer of \<open>cap\<close> bytes, asking for at most \<open>count\<close>
  bytes: a message longer than \<open>count\<close> is an error; one that fits \<open>count\<close> is written
  to the buffer whole, past its end when it is longer than \<open>cap\<close>.
\<close>

definition MPI_Mrecv :: "node_id_t \<Rightarrow> nat \<Rightarrow> nat \<Rightarrow> envelope option \<Rightarrow> mpi_world \<Rightarrow> (bool \<times> byte list) outcome" where
  "MPI_Mrecv me cap count msg w =
     (case msg of
        None \<Rightarrow> Returns (False, []) (record_call (Mrecv me count) False w)
      | Some e \<Rightarrow>
          if \<not> answer w \<or> count < length (payload e)
          then Returns (False, []) (record_call (Mrecv me count) False w)
          else if cap < length (payload e) then Overrun (Mrecv me count)
          else Returns (True, payload e) (record_call (Mrecv me count) True w))"

text \<open>
  The blocking receive into a buffer of \<open>cap\<close> bytes: \<open>asked\<close> is the size as the source
  writes it, kept in the trace, and \<open>count\<close> the count that the transport is given. A
  negative count is an error, and so is a message longer than the count.
\<close>

definition MPI_Recv :: "com_constants \<Rightarrow> node_id_t \<Rightarrow> nat \<Rightarrow> nat \<Rightarrow> int \<Rightarrow> node_id_t \<Rightarrow> com_tags \<Rightarrow> mpi_world \<Rightarrow> (bool \<times> byte list) outcome" where
  "MPI_Recv K me cap asked count source tg w =
     (if \<not> answer w \<or> count < 0
      then Returns (False, []) (record_call (Recv me source tg asked) False w)
      else case find (matches K me source tg) (pending w) of
             None \<Rightarrow> Blocks (Recv me source tg asked)
           | Some e \<Rightarrow>
               if count < int (length (payload e))
               then Returns (False, []) (record_call (Recv me source tg asked) False
                                          (w\<lparr>pending := remove1 e (pending w)\<rparr>))
               else if cap < length (payload e) then Overrun (Recv me source tg asked)
               else Returns (True, payload e) (record_call (Recv me source tg asked) True
                                          (w\<lparr>pending := remove1 e (pending w)\<rparr>)))"

text \<open>A buffer after \<open>bs\<close> has been written to its start.\<close>

definition overwrite :: "byte list \<Rightarrow> byte list \<Rightarrow> byte list" where
  "overwrite bs buf = bs @ drop (length bs) buf"

subsection \<open>Generic tagged exchange\<close>

text \<open>
  Every function takes the constants \<open>K\<close> and the caller's \<^verbatim>\<open>_rank\<close>. A buffer argument
  \<^verbatim>\<open>void *_bytes\<close> that is received into is the list of the bytes it holds: its length is
  the room the caller has given it, and the function returns its new content. A buffer
  that is sent is the list of its \<^verbatim>\<open>num_bytes\<close> bytes. \<^verbatim>\<open>num_bytes\<close> is a \<^verbatim>\<open>size_t\<close> in
  \<^verbatim>\<open>recv_sync\<close>, \<^verbatim>\<open>send_sync\<close> and \<^verbatim>\<open>send_async\<close>, and the transport takes an \<^verbatim>\<open>int\<close>.
\<close>

definition recv_sync :: "com_constants \<Rightarrow> node_id_t \<Rightarrow> byte list \<Rightarrow> nat \<Rightarrow> node_id_t \<Rightarrow> com_tags \<Rightarrow> mpi_world \<Rightarrow> (bool \<times> byte list) outcome" where
  "recv_sync K rank buf num_bytes node tg w =
     (case MPI_Recv K rank (length buf) num_bytes (int_count num_bytes) node (tg + FREE_TAG K) w of
        Blocks c \<Rightarrow> Blocks c
      | Overrun c \<Rightarrow> Overrun c
      | Returns (ok, bs) w' \<Rightarrow> Returns (ok, if ok then overwrite bs buf else buf) w')"

definition send_sync :: "com_constants \<Rightarrow> node_id_t \<Rightarrow> byte list \<Rightarrow> node_id_t \<Rightarrow> com_tags \<Rightarrow> mpi_world \<Rightarrow> bool \<times> mpi_world" where
  "send_sync K rank bs node tg w =
     MPI_Ssend rank bs (int_count (length bs)) node (tg + FREE_TAG K) w"

record async_request_t =
  request :: nat
  success :: bool

definition wait_async :: "async_request_t \<Rightarrow> mpi_world \<Rightarrow> bool \<times> mpi_world" where
  "wait_async req w = MPI_Wait (request req) w"

definition send_async :: "com_constants \<Rightarrow> node_id_t \<Rightarrow> byte list \<Rightarrow> node_id_t \<Rightarrow> com_tags \<Rightarrow> mpi_world \<Rightarrow> async_request_t \<times> mpi_world" where
  "send_async K rank bs node tg w =
     (case MPI_Isend rank bs (int_count (length bs)) node (tg + FREE_TAG K) w of
        ((ok, r), w') \<Rightarrow> (\<lparr>request = r, success = ok\<rparr>, w'))"

text \<open>
  \<^verbatim>\<open>sync_request_t\<close> is declared in the absent header; its fields are those the functions
  use. \<open>message\<close> stands for the message handle and the status of the probe together.
  \<open>sync_success\<close> is the field \<^verbatim>\<open>success\<close>. \<open>fresh_request\<close> stands for the request that
  \<^verbatim>\<open>sync_request_t _req;\<close> declares; a field that a function does not assign keeps the
  value it has there, and no theorem below reads such a field.
\<close>

record sync_request_t =
  message :: "envelope option"
  num_bytes :: nat
  message_tag :: com_tags
  sync_success :: bool

definition fresh_request :: sync_request_t where
  "fresh_request = \<lparr>message = None, num_bytes = 0, message_tag = 0, sync_success = True\<rparr>"

definition expect_request_sync :: "com_constants \<Rightarrow> node_id_t \<Rightarrow> node_id_t \<Rightarrow> com_tags \<Rightarrow> mpi_world \<Rightarrow> sync_request_t outcome" where
  "expect_request_sync K rank node tg w =
     (case MPI_Mprobe K rank node (tg + FREE_TAG K) w of
        Blocks c \<Rightarrow> Blocks c
      | Overrun c \<Rightarrow> Overrun c
      | Returns None w' \<Rightarrow> Returns (fresh_request\<lparr>sync_success := False\<rparr>) w'
      | Returns (Some e) w' \<Rightarrow>
          Returns (fresh_request\<lparr>message := Some e, num_bytes := MPI_Get_count e,
                                 message_tag := wire_tag e\<rparr>) w')"

definition receive_request_sync :: "node_id_t \<Rightarrow> byte list \<Rightarrow> sync_request_t \<Rightarrow> mpi_world \<Rightarrow> (bool \<times> byte list) outcome" where
  "receive_request_sync rank buf req w =
     (case MPI_Mrecv rank (length buf) (num_bytes req) (message req) w of
        Blocks c \<Rightarrow> Blocks c
      | Overrun c \<Rightarrow> Overrun c
      | Returns (ok, bs) w' \<Rightarrow> Returns (ok, if ok then overwrite bs buf else buf) w')"

subsection \<open>Tensor notifications\<close>

definition tensors_created_notification :: "com_constants \<Rightarrow> node_id_t \<Rightarrow> node_id_t \<Rightarrow> tid_t list \<Rightarrow> mpi_world \<Rightarrow> bool \<times> mpi_world" where
  "tensors_created_notification K rank out_node tensor w =
     MPI_Ssend rank (bytes_of_tids tensor) (int_count (length tensor * sizeof_tid)) out_node
       (NOTIFY_TENSOR_TAG K) w"

text \<open>
  The vector \<^verbatim>\<open>p\<close> has \<^verbatim>\<open>num_bytes / sizeof(tid_t)\<close> ids, all zero, and that many times
  \<^verbatim>\<open>sizeof(tid_t)\<close> bytes of storage; the receive is asked for \<^verbatim>\<open>num_bytes\<close> bytes.
\<close>

definition receive_tensor_created_notification :: "com_constants \<Rightarrow> node_id_t \<Rightarrow> mpi_world \<Rightarrow> (node_id_t \<times> tid_t list) outcome" where
  "receive_tensor_created_notification K rank w =
     (case MPI_Mprobe K rank (ANY_NODE K) (NOTIFY_TENSOR_TAG K) w of
        Blocks c \<Rightarrow> Blocks c
      | Overrun c \<Rightarrow> Overrun c
      | Returns None w1 \<Rightarrow> Returns (- 1, []) w1
      | Returns (Some e) w1 \<Rightarrow>
          (let num_bytes = MPI_Get_count e;
               p = replicate (num_bytes div sizeof_tid) (0 :: tid_t)
           in case MPI_Mrecv rank (length p * sizeof_tid) num_bytes (Some e) w1 of
                Blocks c \<Rightarrow> Blocks c
              | Overrun c \<Rightarrow> Overrun c
              | Returns (ok, bs) w2 \<Rightarrow>
                  if \<not> ok then Returns (- 1, []) w2
                  else Returns (src e, tids_of_bytes (overwrite bs (bytes_of_tids p))) w2))"

definition shutdown_notification_handler :: "com_constants \<Rightarrow> node_id_t \<Rightarrow> mpi_world \<Rightarrow> bool \<times> mpi_world" where
  "shutdown_notification_handler K rank w =
     (let tensor = [- 1 :: tid_t]
      in MPI_Ssend rank (bytes_of_tids tensor) (int_count (length tensor * sizeof_tid)) rank
           (NOTIFY_TENSOR_TAG K) w)"

subsection \<open>Commands\<close>

text \<open>
  \<^verbatim>\<open>command_t\<close> is declared outside the sources. A command is what the communicator reads
  of it: the list \<^verbatim>\<open>get_nodes()\<close>, the inputs \<^verbatim>\<open>get_input(0..get_num_inputs()-1)\<close>, the
  outputs likewise, and \<open>byte_image\<close>: the bytes at its address that the count
  \<^verbatim>\<open>_cmd->num_bytes()\<close> gives to the transport. The type of that count is declared with
  \<^verbatim>\<open>command_t\<close>; the count reaches the transport as the length of \<open>byte_image\<close>. The spec
  calls the nodes of \<^verbatim>\<open>get_nodes()\<close> the command's declared participants, a set; the list may
  be any list here, and what is proved of \<^verbatim>\<open>op_request\<close> is proved for the lists that name
  no node twice.
\<close>

record tid_node_id_t =
  tid :: tid_t
  node :: node_id_t

record command_t =
  get_nodes :: "node_id_t list"
  inputs :: "tid_node_id_t list"
  outputs :: "tid_node_id_t list"
  byte_image :: "byte list"

text \<open>The first loop of \<^verbatim>\<open>op_request\<close>: every listed node but the caller, in order.\<close>

fun other_nodes :: "node_id_t \<Rightarrow> node_id_t list \<Rightarrow> node_id_t list \<Rightarrow> node_id_t list" where
  "other_nodes rank to_sent_to [] = to_sent_to"
| "other_nodes rank to_sent_to (n # ns) =
     other_nodes rank (if n \<noteq> rank then to_sent_to @ [n] else to_sent_to) ns"

text \<open>
  The loops of \<^verbatim>\<open>forward_cmd\<close> over the inputs and over the outputs: a node is added
  when it is not the caller and \<^verbatim>\<open>std::find\<close> does not find it among those added.
\<close>

fun unseen_nodes :: "node_id_t \<Rightarrow> node_id_t list \<Rightarrow> tid_node_id_t list \<Rightarrow> node_id_t list" where
  "unseen_nodes rank to_sent_to [] = to_sent_to"
| "unseen_nodes rank to_sent_to (t # ts) =
     unseen_nodes rank
       (if node t \<noteq> rank \<and> node t \<notin> set to_sent_to then to_sent_to @ [node t] else to_sent_to) ts"

text \<open>The loop that starts one non-blocking send per destination.\<close>

fun isend_each :: "node_id_t \<Rightarrow> byte list \<Rightarrow> com_tags \<Rightarrow> async_request_t list \<Rightarrow> node_id_t list \<Rightarrow> mpi_world \<Rightarrow> async_request_t list \<times> mpi_world" where
  "isend_each rank bs tg requests [] w = (requests, w)"
| "isend_each rank bs tg requests (n # ns) w =
     (case MPI_Isend rank bs (int (length bs)) n tg w of
        ((ok, r), w') \<Rightarrow> isend_each rank bs tg (requests @ [\<lparr>request = r, success = ok\<rparr>]) ns w')"

text \<open>
  The loop over the requests:
  \<^verbatim>\<open>success = r.success && MPI_Wait(...) == MPI_SUCCESS && success\<close>.
  The wait is not called for a request whose send did not start.
\<close>

fun wait_each :: "bool \<Rightarrow> async_request_t list \<Rightarrow> mpi_world \<Rightarrow> bool \<times> mpi_world" where
  "wait_each ok [] w = (ok, w)"
| "wait_each ok (r # rs) w =
     (if success r
      then (case MPI_Wait (request r) w of (waited, w') \<Rightarrow> wait_each (waited \<and> ok) rs w')
      else wait_each False rs w)"

definition op_request :: "com_constants \<Rightarrow> node_id_t \<Rightarrow> command_t \<Rightarrow> mpi_world \<Rightarrow> bool \<times> mpi_world" where
  "op_request K rank cmd w =
     (let to_sent_to = other_nodes rank [] (get_nodes cmd)
      in case isend_each rank (byte_image cmd) (SEND_CMD_TAG K) [] to_sent_to w of
           (requests, w') \<Rightarrow> wait_each True requests w')"

definition forward_cmd :: "com_constants \<Rightarrow> node_id_t \<Rightarrow> command_t \<Rightarrow> mpi_world \<Rightarrow> bool \<times> mpi_world" where
  "forward_cmd K rank cmd w =
     (let to_sent_to = unseen_nodes rank (unseen_nodes rank [] (inputs cmd)) (outputs cmd)
      in case isend_each rank (byte_image cmd) (FORWARD_CMD_TAG K) [] to_sent_to w of
           (requests, w') \<Rightarrow> wait_each True requests w')"

subsection \<open>The calls a function makes, and example values\<close>

text \<open>The transport calls made between two worlds, with their results, oldest first.\<close>

definition new_calls :: "mpi_world \<Rightarrow> mpi_world \<Rightarrow> (mpi_call \<times> bool) list" where
  "new_calls w w' = drop (length (trace w)) (trace w')"

text \<open>The transport calls that an outcome tells of.\<close>

fun calls_of :: "mpi_world \<Rightarrow> 'a outcome \<Rightarrow> mpi_call list" where
  "calls_of w (Blocks c) = [c]"
| "calls_of w (Overrun c) = [c]"
| "calls_of w (Returns x w') = map fst (new_calls w w')"

text \<open>
  Values for the constants of the absent header, a world in which nothing is pending and
  no call fails, one in which the first call fails, a payload of \<open>2^32 + 1\<close> bytes, two
  commands, and worlds in which a notification for node 0 is pending, for the examples
  below.
\<close>

definition K_example :: com_constants where
  "K_example = \<lparr>SEND_CMD_TAG = 1, FORWARD_CMD_TAG = 2, NOTIFY_TENSOR_TAG = 3, FREE_TAG = 4, ANY_NODE = - 2\<rparr>"

definition quiet_world :: mpi_world where
  "quiet_world = \<lparr>pending = [], fails = (\<lambda>k. False), trace = []\<rparr>"

definition long_payload :: "byte list" where
  "long_payload = 7 # replicate (2 ^ 32) 0"

definition world_first_fails :: mpi_world where
  "world_first_fails = \<lparr>pending = [], fails = (\<lambda>k. k = 0), trace = []\<rparr>"

definition cmd_example :: command_t where
  "cmd_example = \<lparr>get_nodes = [0, 3],
     inputs = [\<lparr>tid = 10, node = 1\<rparr>, \<lparr>tid = 11, node = 0\<rparr>, \<lparr>tid = 12, node = 1\<rparr>],
     outputs = [\<lparr>tid = 13, node = 2\<rparr>], byte_image = [7]\<rparr>"

definition cmd_local :: command_t where
  "cmd_local = \<lparr>get_nodes = [0, 0],
     inputs = [\<lparr>tid = 10, node = 0\<rparr>], outputs = [\<lparr>tid = 13, node = 0\<rparr>], byte_image = [7]\<rparr>"

definition world_notified :: mpi_world where
  "world_notified = \<lparr>pending = [\<lparr>src = 1, dst = 0, wire_tag = 3, payload = [1, 0, 0, 0, 2, 1, 0, 0]\<rparr>],
                      fails = (\<lambda>k. False), trace = []\<rparr>"

definition world_five_bytes :: mpi_world where
  "world_five_bytes = \<lparr>pending = [\<lparr>src = 1, dst = 0, wire_tag = 3, payload = [1, 0, 0, 0, 9]\<rparr>],
                      fails = (\<lambda>k. False), trace = []\<rparr>"

definition world_six_bytes :: mpi_world where
  "world_six_bytes = \<lparr>pending = [\<lparr>src = 2, dst = 0, wire_tag = 3, payload = [1, 0, 0, 0, 9, 9]\<rparr>],
                      fails = (\<lambda>k. False), trace = []\<rparr>"

definition world_probe_fails :: mpi_world where
  "world_probe_fails = \<lparr>pending = [\<lparr>src = 1, dst = 0, wire_tag = 3, payload = [1, 0, 0, 0]\<rparr>],
                         fails = (\<lambda>k. k = 0), trace = []\<rparr>"

definition world_receive_fails :: mpi_world where
  "world_receive_fails = \<lparr>pending = [\<lparr>src = 1, dst = 0, wire_tag = 3, payload = [1, 0, 0, 0]\<rparr>],
                         fails = (\<lambda>k. k = 1), trace = []\<rparr>"

section \<open>The reduction operator: \<^verbatim>\<open>src/operations/partial_reduce_op.cc\<close>\<close>

subsection \<open>Tensors, the format registry and the kernel\<close>

text \<open>
  A tensor starts with its metadata (\<^verbatim>\<open>as<tensor_meta_t>()\<close>), which starts with the format
  id \<^verbatim>\<open>fmt_id\<close>; \<open>extra\<close> is the part of the metadata that depends on the format, and
  \<open>content\<close> the data behind it. Both are left open.
\<close>

type_synonym tfid_t = nat

record 'm tensor_meta_t =
  fmt_id :: tfid_t
  extra :: 'm

record ('m, 'd) tensor_t =
  meta :: "'m tensor_meta_t"
  content :: 'd

text \<open>
  The members of \<^verbatim>\<open>tensor_factory_t\<close> and \<^verbatim>\<open>ud_impl_t\<close> that \<^verbatim>\<open>apply\<close> calls are defined
  outside the sources (the kernel is whatever the user registered); they are parameters.
  An argument that the member writes through is an argument and the result:
  \<open>get_out_meta\<close> takes the output metadata and returns it filled in, \<open>init_tensor\<close> and
  \<open>call_ud\<close> take the output tensor and return it written.
\<close>

record ('m, 'd) tensor_factory_t =
  get_tensor_ftm :: "string \<Rightarrow> tfid_t"
  get_tensor_size :: "'m tensor_meta_t \<Rightarrow> nat"
  init_tensor :: "('m, 'd) tensor_t \<Rightarrow> 'm tensor_meta_t \<Rightarrow> ('m, 'd) tensor_t"

record ('m, 'd, 'p) ud_impl_t =
  outputTypes :: "string list"
  get_out_meta :: "'p \<Rightarrow> 'm tensor_meta_t \<times> 'm tensor_meta_t \<Rightarrow> 'm tensor_meta_t \<Rightarrow> 'm tensor_meta_t"
  call_ud :: "'p \<Rightarrow> ('m, 'd) tensor_t \<times> ('m, 'd) tensor_t \<Rightarrow> ('m, 'd) tensor_t \<Rightarrow> ('m, 'd) tensor_t"

subsection \<open>The tensor store\<close>

text \<open>
  Modelled from the spec: \<^verbatim>\<open>TID_NONE\<close> is declared outside the sources; the spec reserves the
  tensor id \<open>-1\<close> for "no tensor".
\<close>

definition TID_NONE :: tid_t where
  "TID_NONE = - 1"

text \<open>
  Modelled from the spec: \<^verbatim>\<open>storage_t\<close> is not among the sources. The store is the tensors
  it holds under their ids; its way of reserving a slot (\<open>allot\<close>: given the tensors held,
  the id asked for and the size in bytes, it gives the id it assigns and a blank tensor,
  or nothing when it denies the reservation); and the transactions it has granted, oldest
  first, each with the ids it read and the slots it asked for.
\<close>

record ('m, 'd) storage_t =
  tensors :: "tid_t \<Rightarrow> ('m, 'd) tensor_t option"
  allot :: "(tid_t \<Rightarrow> ('m, 'd) tensor_t option) \<Rightarrow> tid_t \<Rightarrow> nat \<Rightarrow> (tid_t \<times> ('m, 'd) tensor_t) option"
  journal :: "(tid_t list \<times> (tid_t \<times> nat) list) list"

text \<open>
  Modelled from the spec: \<^verbatim>\<open>storage_t::reservation_result_t\<close> is declared outside the sources.
  The body receives, for each read, a handle to the existing tensor and, for each create,
  a handle to a freshly reserved slot with the id assigned to it. \<^verbatim>\<open>apply\<close> reads the
  members \<^verbatim>\<open>id\<close> (here \<open>tensor_id\<close>) and \<^verbatim>\<open>tensor\<close> of the elements of \<^verbatim>\<open>res.get\<close> and
  \<^verbatim>\<open>res.create\<close>.
\<close>

record ('m, 'd) tensor_ref =
  tensor_id :: tid_t
  tensor :: "('m, 'd) tensor_t"

record ('m, 'd) reservation_result_t =
  get :: "('m, 'd) tensor_ref list"
  create :: "('m, 'd) tensor_ref list"

text \<open>
  Modelled from the spec: the store may deny a transaction (\<^verbatim>\<open>ReservationFailure\<close>), and
  the denial reaches the caller of the operator as a failure. \<^verbatim>\<open>apply\<close> returns nothing and
  tests nothing, so a denial can only pass through it as an exception does. A call ends
  in one of three ways: it returns (\<open>Done\<close>); a failure leaves it (\<open>Throws\<close>), with the
  state as it then is; or it has read what is not there (an element of an empty vector, a
  variable never assigned), after which nothing is defined.
\<close>

datatype failure = ReservationFailure

datatype 'a run = Done 'a | Throws failure 'a | Undefined

text \<open>
  Modelled from the spec: the steps of \<^verbatim>\<open>local_transaction\<close>, which is not among the sources.
  The handles to the tensors to read, or nothing when one of them is not held; the slots
  reserved one after the other, or nothing when one is denied; and the created tensors
  put under their ids.
\<close>

fun lookup_all :: "(tid_t \<Rightarrow> ('m, 'd) tensor_t option) \<Rightarrow> tid_t list \<Rightarrow> ('m, 'd) tensor_ref list option" where
  "lookup_all ts [] = Some []"
| "lookup_all ts (i # is) =
     (case ts i of
        None \<Rightarrow> None
      | Some t \<Rightarrow> (case lookup_all ts is of None \<Rightarrow> None | Some rs \<Rightarrow> Some (\<lparr>tensor_id = i, tensor = t\<rparr> # rs)))"

fun reserve :: "((tid_t \<Rightarrow> ('m, 'd) tensor_t option) \<Rightarrow> tid_t \<Rightarrow> nat \<Rightarrow> (tid_t \<times> ('m, 'd) tensor_t) option) \<Rightarrow>
    (tid_t \<Rightarrow> ('m, 'd) tensor_t option) \<Rightarrow> (tid_t \<times> nat) list \<Rightarrow> ('m, 'd) tensor_ref list option" where
  "reserve al ts [] = Some []"
| "reserve al ts ((i, n) # cs) =
     (case al ts i n of
        None \<Rightarrow> None
      | Some (j, slot) \<Rightarrow>
          (case reserve al (ts(j \<mapsto> slot)) cs of
             None \<Rightarrow> None
           | Some rs \<Rightarrow> Some (\<lparr>tensor_id = j, tensor = slot\<rparr> # rs)))"

fun store_all :: "('m, 'd) tensor_ref list \<Rightarrow> (tid_t \<Rightarrow> ('m, 'd) tensor_t option) \<Rightarrow> (tid_t \<Rightarrow> ('m, 'd) tensor_t option)" where
  "store_all [] ts = ts"
| "store_all (r # rs) ts = store_all rs (ts(tensor_id r \<mapsto> tensor r))"

text \<open>
  Modelled from the spec: \<^verbatim>\<open>storage_t::local_transaction\<close> is not among the sources. The spec
  gives the interface
  \<^verbatim>\<open>local_transaction(reads: [TensorId], creates: [(TensorId|NONE, byteSize)], body)\<close>.
  A transaction is denied when a tensor to read is not held or a slot is not reserved;
  then nothing changes and the body does not run. Otherwise the body runs on the handles,
  and what it has made of the created tensors is held under their ids afterwards. The
  body is the lambda of the source: it takes the handles and the variables it has
  captured by reference, and returns both as it leaves them, or nothing when it has read
  what is not there.
\<close>

definition local_transaction ::
  "('m, 'd) storage_t \<Rightarrow> tid_t list \<Rightarrow> (tid_t \<times> nat) list \<Rightarrow>
   (('m, 'd) reservation_result_t \<Rightarrow> 'c \<Rightarrow> (('m, 'd) reservation_result_t \<times> 'c) option) \<Rightarrow> 'c \<Rightarrow>
   (('m, 'd) storage_t \<times> 'c) run" where
  "local_transaction st gets creates body c =
     (case lookup_all (tensors st) gets of
        None \<Rightarrow> Throws ReservationFailure (st, c)
      | Some found \<Rightarrow>
          (case reserve (allot st) (tensors st) creates of
             None \<Rightarrow> Throws ReservationFailure (st, c)
           | Some slots \<Rightarrow>
               (case body \<lparr>get = found, create = slots\<rparr> c of
                  None \<Rightarrow> Undefined
                | Some (res, c') \<Rightarrow>
                    Done (st\<lparr>tensors := store_all (create res) (tensors st),
                             journal := journal st @ [(gets, creates)]\<rparr>, c'))))"

subsection \<open>The operator\<close>

text \<open>
  The operator's members that \<^verbatim>\<open>apply\<close> reads or writes. \<open>out_tid\<close> is the caller's variable
  that \<^verbatim>\<open>_out_tid\<close> refers to; \<open>out_meta\<close> is \<^verbatim>\<open>_out_meta\<close>, which \<^verbatim>\<open>_output_meta\<close> points to. The
  store, which the operator holds by reference, is passed beside it. The argument
  bundles \<^verbatim>\<open>_input_meta\<close>, \<^verbatim>\<open>_input_tensors\<close> and \<^verbatim>\<open>_output_tensor\<close> only pass pointers on.
\<close>

record ('m, 'd, 'p) partial_reduce_op_t =
  factory :: "('m, 'd) tensor_factory_t"
  lhs :: tid_t
  rhs :: tid_t
  params :: 'p
  reduce_op :: "('m, 'd, 'p) ud_impl_t"
  out_tid :: tid_t
  out_meta :: "'m tensor_meta_t"

text \<open>
  The body of the first transaction. It captures the operator and the local
  \<^verbatim>\<open>output_size\<close>, which has no value before the body gives it one.
\<close>

definition metadata_phase ::
  "('m, 'd) reservation_result_t \<Rightarrow> ('m, 'd, 'p) partial_reduce_op_t \<times> nat option \<Rightarrow>
   (('m, 'd) reservation_result_t \<times> ('m, 'd, 'p) partial_reduce_op_t \<times> nat option) option" where
  "metadata_phase res c =
     (case (c, get res, outputTypes (reduce_op (fst c))) of
        ((self, output_size), l # r # _, type # _) \<Rightarrow>
          (let input_meta = (meta (tensor l), meta (tensor r));
               inferred = get_out_meta (reduce_op self) (params self) input_meta (out_meta self);
               self' = self\<lparr>out_meta := inferred\<lparr>fmt_id := get_tensor_ftm (factory self) type\<rparr>\<rparr>
           in Some (res, self', Some (get_tensor_size (factory self') (out_meta self'))))
      | _ \<Rightarrow> None)"

text \<open>The body of the second transaction.\<close>

definition kernel_phase ::
  "('m, 'd) reservation_result_t \<Rightarrow> ('m, 'd, 'p) partial_reduce_op_t \<Rightarrow>
   (('m, 'd) reservation_result_t \<times> ('m, 'd, 'p) partial_reduce_op_t) option" where
  "kernel_phase res self =
     (case (create res, get res) of
        (out # others, l # r # _) \<Rightarrow>
          (let initialised = init_tensor (factory self) (tensor out) (out_meta self);
               computed = call_ud (reduce_op self) (params self) (tensor l, tensor r) initialised
           in Some (res\<lparr>create := out\<lparr>tensor := computed\<rparr> # others\<rparr>,
                    self\<lparr>out_tid := tensor_id out\<rparr>))
      | _ \<Rightarrow> None)"

text \<open>\<^verbatim>\<open>partial_reduce_op_t::apply\<close>.\<close>

definition partial_reduce_op_apply ::
  "('m, 'd) storage_t \<Rightarrow> ('m, 'd, 'p) partial_reduce_op_t \<Rightarrow>
   (('m, 'd) storage_t \<times> ('m, 'd, 'p) partial_reduce_op_t) run" where
  "partial_reduce_op_apply st self =
     (case local_transaction st [lhs self, rhs self] [] metadata_phase (self, None) of
        Undefined \<Rightarrow> Undefined
      | Throws f (st1, (self1, _)) \<Rightarrow> Throws f (st1, self1)
      | Done (st1, (self1, None)) \<Rightarrow> Undefined
      | Done (st1, (self1, Some output_size)) \<Rightarrow>
          local_transaction st1 [lhs self1, rhs self1] [(TID_NONE, output_size)] kernel_phase self1)"

subsection \<open>Example values\<close>

text \<open>
  A registry with one format; a kernel that adds the contents of its inputs, one that
  also infers a format id of its own, 99, and one that also writes the metadata of its
  output; a store that holds two tensors and allots the id 5 to a slot of at most \<open>room\<close>
  bytes; and an operator over them.
\<close>

definition factory_example :: "(nat, int) tensor_factory_t" where
  "factory_example = \<lparr>get_tensor_ftm = (\<lambda>ty. 7), get_tensor_size = (\<lambda>M. 16 + 8 * extra M),
                       init_tensor = (\<lambda>t M. t\<lparr>meta := M\<rparr>)\<rparr>"

definition add_example :: "(nat, int, unit) ud_impl_t" where
  "add_example = \<lparr>outputTypes = [''dense''],
                   get_out_meta = (\<lambda>ps (a, b) out. out\<lparr>extra := extra a\<rparr>),
                   call_ud = (\<lambda>ps (l, r) out. out\<lparr>content := content l + content r\<rparr>)\<rparr>"

definition relabel_example :: "(nat, int, unit) ud_impl_t" where
  "relabel_example = \<lparr>outputTypes = [''dense''],
                       get_out_meta = (\<lambda>ps (a, b) out. \<lparr>fmt_id = 99, extra = extra a\<rparr>),
                       call_ud = (\<lambda>ps (l, r) out. out\<lparr>content := content l + content r\<rparr>)\<rparr>"

definition scrub_example :: "(nat, int, unit) ud_impl_t" where
  "scrub_example = \<lparr>outputTypes = [''dense''],
                     get_out_meta = (\<lambda>ps (a, b) out. \<lparr>fmt_id = fmt_id a, extra = extra a\<rparr>),
                     call_ud = (\<lambda>ps (l, r) out. \<lparr>meta = \<lparr>fmt_id = 0, extra = 0\<rparr>,
                                                  content = content l + content r\<rparr>)\<rparr>"

definition blank_example :: "(nat, int) tensor_t" where
  "blank_example = \<lparr>meta = \<lparr>fmt_id = 0, extra = 0\<rparr>, content = 0\<rparr>"

definition store_example :: "nat \<Rightarrow> (nat, int) storage_t" where
  "store_example room =
     \<lparr>tensors = [0 \<mapsto> \<lparr>meta = \<lparr>fmt_id = 7, extra = 1\<rparr>, content = 20\<rparr>,
                 1 \<mapsto> \<lparr>meta = \<lparr>fmt_id = 7, extra = 1\<rparr>, content = 22\<rparr>],
      allot = (\<lambda>ts i n. if n \<le> room then Some (5, blank_example) else None),
      journal = []\<rparr>"

definition op_example :: "(nat, int, unit) partial_reduce_op_t" where
  "op_example = \<lparr>factory = factory_example, lhs = 0, rhs = 1, params = (), reduce_op = add_example,
                  out_tid = 99, out_meta = \<lparr>fmt_id = 0, extra = 0\<rparr>\<rparr>"

section \<open>Counts\<close>

lemma int_count_small: "n < 2 ^ 31 \<Longrightarrow> int_count n = int n"
  by (simp add: int_count_def)

lemma int_count_wraps: "int_count (2 ^ 32 + n) = int_count n"
  by (simp add: int_count_def)

text \<open>
  \<^verbatim>\<open>recv_sync\<close> asked for \<open>2^32 + 1\<close> bytes gives the transport the count 1: a pending message
  of two bytes is longer than that, and the receive fails.
\<close>

lemma recv_sync_count_wraps:
  "\<exists>w'. recv_sync K_example 1 [0, 0] (2 ^ 32 + 1) 0 5
          \<lparr>pending = [\<lparr>src = 0, dst = 1, wire_tag = 9, payload = [7, 8]\<rparr>],
           fails = (\<lambda>k. False), trace = []\<rparr> = Returns (False, [0, 0]) w'"
proof -
  have "int_count (2 ^ 32 + 1) = 1"
    unfolding int_count_wraps by (simp add: int_count_def)
  then show ?thesis
    by (simp add: recv_sync_def MPI_Recv_def answer_def matches_def K_example_def)
qed

section \<open>Dispatching and forwarding commands\<close>

lemma other_nodes_filter: "other_nodes rank acc ns = acc @ filter (\<lambda>n. n \<noteq> rank) ns"
  by (induction ns arbitrary: acc) auto

lemma upt_from_first: "[a ..< Suc (a + m)] = a # [Suc a ..< Suc (a + m)]"
  by (simp add: upt_rec)

lemma MPI_Isend_facts:
  "MPI_Isend me bs (int (length bs)) d tg w = ((ok, r), w1) \<Longrightarrow>
     ok = (\<not> fails w (length (trace w))) \<and> r = length (trace w) \<and>
     trace w1 = trace w @ [(Isend me d tg bs, \<not> fails w (length (trace w)))] \<and> fails w1 = fails w"
  by (auto simp: MPI_Isend_def answer_def record_call_def post_def split: if_splits)

lemma MPI_Wait_facts:
  "MPI_Wait r w = (ok, w1) \<Longrightarrow>
     ok = (\<not> fails w (length (trace w))) \<and>
     trace w1 = trace w @ [(Wait r, \<not> fails w (length (trace w)))] \<and> fails w1 = fails w \<and> pending w1 = pending w"
  by (auto simp: MPI_Wait_def answer_def record_call_def split: if_splits)

lemma isend_each_fails: "isend_each rank bs tg rq ns w = (rq', w') \<Longrightarrow> fails w' = fails w"
proof (induction ns arbitrary: rq w)
  case Nil
  then show ?case by simp
next
  case (Cons n ns)
  obtain ok r w1 where s: "MPI_Isend rank bs (int (length bs)) n tg w = ((ok, r), w1)"
    by (metis surj_pair)
  with Cons.prems have "isend_each rank bs tg (rq @ [\<lparr>request = r, success = ok\<rparr>]) ns w1 = (rq', w')"
    by simp
  then have "fails w' = fails w1" by (rule Cons.IH)
  with MPI_Isend_facts [OF s] show ?case by simp
qed

lemma isend_each_trace:
  "isend_each rank bs tg rq ns w = (rq', w') \<Longrightarrow>
     trace w' = trace w @ map (\<lambda>(k, n). (Isend rank n tg bs, \<not> fails w k))
                            (zip [length (trace w) ..< length (trace w) + length ns] ns)"
proof (induction ns arbitrary: rq w)
  case Nil
  then show ?case by simp
next
  case (Cons n ns)
  obtain ok r w1 where s: "MPI_Isend rank bs (int (length bs)) n tg w = ((ok, r), w1)"
    by (metis surj_pair)
  note f = MPI_Isend_facts [OF s]
  from s Cons.prems have "isend_each rank bs tg (rq @ [\<lparr>request = r, success = ok\<rparr>]) ns w1 = (rq', w')"
    by simp
  then have "trace w' = trace w1 @ map (\<lambda>(k, n). (Isend rank n tg bs, \<not> fails w1 k))
                            (zip [length (trace w1) ..< length (trace w1) + length ns] ns)"
    by (rule Cons.IH)
  with f show ?case by (simp add: upt_from_first del: upt_Suc)
qed

lemma isend_each_requests:
  "isend_each rank bs tg rq ns w = (rq', w') \<Longrightarrow>
     rq' = rq @ map (\<lambda>k. \<lparr>request = k, success = \<not> fails w k\<rparr>)
                    [length (trace w) ..< length (trace w) + length ns]"
proof (induction ns arbitrary: rq w)
  case Nil
  then show ?case by simp
next
  case (Cons n ns)
  obtain ok r w1 where s: "MPI_Isend rank bs (int (length bs)) n tg w = ((ok, r), w1)"
    by (metis surj_pair)
  note f = MPI_Isend_facts [OF s]
  from s Cons.prems have "isend_each rank bs tg (rq @ [\<lparr>request = r, success = ok\<rparr>]) ns w1 = (rq', w')"
    by simp
  then have "rq' = (rq @ [\<lparr>request = r, success = ok\<rparr>]) @ map (\<lambda>k. \<lparr>request = k, success = \<not> fails w1 k\<rparr>)
                    [length (trace w1) ..< length (trace w1) + length ns]"
    by (rule Cons.IH)
  with f show ?case by (simp add: upt_from_first del: upt_Suc)
qed

lemma wait_each_fails: "wait_each ok rs w = (ok', w') \<Longrightarrow> fails w' = fails w"
proof (induction rs arbitrary: ok w)
  case Nil
  then show ?case by simp
next
  case (Cons r rs)
  show ?case
  proof (cases "success r")
    case True
    obtain waited w1 where s: "MPI_Wait (request r) w = (waited, w1)" by (metis surj_pair)
    with True Cons.prems have "wait_each (waited \<and> ok) rs w1 = (ok', w')" by simp
    then have "fails w' = fails w1" by (rule Cons.IH)
    with MPI_Wait_facts [OF s] show ?thesis by simp
  next
    case False
    with Cons.prems have "wait_each False rs w = (ok', w')" by simp
    then show ?thesis by (rule Cons.IH)
  qed
qed

lemma wait_each_trace:
  "wait_each ok rs w = (ok', w') \<Longrightarrow>
     trace w' = trace w @ map (\<lambda>(k, r). (Wait (request r), \<not> fails w k))
                   (zip [length (trace w) ..< length (trace w) + length (filter success rs)] (filter success rs))"
proof (induction rs arbitrary: ok w)
  case Nil
  then show ?case by simp
next
  case (Cons r rs)
  show ?case
  proof (cases "success r")
    case True
    obtain waited w1 where s: "MPI_Wait (request r) w = (waited, w1)" by (metis surj_pair)
    note f = MPI_Wait_facts [OF s]
    from s True Cons.prems have "wait_each (waited \<and> ok) rs w1 = (ok', w')" by simp
    then have "trace w' = trace w1 @ map (\<lambda>(k, r). (Wait (request r), \<not> fails w1 k))
                   (zip [length (trace w1) ..< length (trace w1) + length (filter success rs)] (filter success rs))"
      by (rule Cons.IH)
    with f True show ?thesis by (simp add: upt_from_first del: upt_Suc)
  next
    case False
    with Cons.prems have "wait_each False rs w = (ok', w')" by simp
    then have "trace w' = trace w @ map (\<lambda>(k, r). (Wait (request r), \<not> fails w k))
                   (zip [length (trace w) ..< length (trace w) + length (filter success rs)] (filter success rs))"
      by (rule Cons.IH)
    with False show ?thesis by simp
  qed
qed

lemma wait_each_result:
  "wait_each ok rs w = (ok', w') \<Longrightarrow>
     ok' = (ok \<and> list_all success rs \<and> list_all snd (drop (length (trace w)) (trace w')))"
proof (induction rs arbitrary: ok w)
  case Nil
  then show ?case by simp
next
  case (Cons r rs)
  show ?case
  proof (cases "success r")
    case True
    obtain waited w1 where s: "MPI_Wait (request r) w = (waited, w1)" by (metis surj_pair)
    note f = MPI_Wait_facts [OF s]
    from s True Cons.prems have rest: "wait_each (waited \<and> ok) rs w1 = (ok', w')" by simp
    then have ih: "ok' = ((waited \<and> ok) \<and> list_all success rs \<and> list_all snd (drop (length (trace w1)) (trace w')))"
      by (rule Cons.IH)
    from wait_each_trace [OF rest] obtain ys where ys: "trace w' = trace w1 @ ys" by blast
    with f have "drop (length (trace w)) (trace w') = (Wait (request r), waited) # drop (length (trace w1)) (trace w')"
      by simp
    with ih True show ?thesis by auto
  next
    case False
    with Cons.prems have "wait_each False rs w = (ok', w')" by simp
    then have "ok' = (False \<and> list_all success rs \<and> list_all snd (drop (length (trace w)) (trace w')))"
      by (rule Cons.IH)
    with False show ?thesis by simp
  qed
qed

lemma map_fst_map2: "length ks = length xs \<Longrightarrow> map fst (map (\<lambda>(k, x). (f x, g k)) (zip ks xs)) = map f xs"
  by (induction ks xs rule: list_induct2) simp_all

lemma map_snd_map2: "length ks = length xs \<Longrightarrow> map snd (map (\<lambda>(k, x). (f x, g k)) (zip ks xs)) = map g ks"
  by (induction ks xs rule: list_induct2) simp_all

lemma dispatch_calls:
  assumes s: "isend_each rank bs tg [] ns w = (rq, w1)"
    and t: "wait_each True rq w1 = (ok, w')"
  shows "map fst (new_calls w w') =
           map (\<lambda>n. Isend rank n tg bs) ns @
           map Wait (filter (\<lambda>k. \<not> fails w k) [length (trace w) ..< length (trace w) + length ns])"
    and "ok = list_all snd (new_calls w w')"
    and "ok \<Longrightarrow> length (new_calls w w') = 2 * length ns"
proof -
  let ?L = "length (trace w)"
  let ?ks = "[?L ..< ?L + length ns]"
  let ?sends = "map (\<lambda>(k, n). (Isend rank n tg bs, \<not> fails w k)) (zip ?ks ns)"
  have rq: "rq = map (\<lambda>k. \<lparr>request = k, success = \<not> fails w k\<rparr>) ?ks"
    using isend_each_requests [OF s] by simp
  have tr1: "trace w1 = trace w @ ?sends"
    by (rule isend_each_trace [OF s])
  have f1: "fails w1 = fails w"
    by (rule isend_each_fails [OF s])
  let ?started = "filter success rq"
  let ?js = "[length (trace w1) ..< length (trace w1) + length ?started]"
  let ?waits = "map (\<lambda>(k, r). (Wait (request r), \<not> fails w1 k)) (zip ?js ?started)"
  have tr2: "trace w' = trace w1 @ ?waits"
    by (rule wait_each_trace [OF t])
  have new: "new_calls w w' = ?sends @ ?waits"
    by (simp add: new_calls_def tr1 tr2)
  have started: "map request ?started = filter (\<lambda>k. \<not> fails w k) ?ks"
    by (simp add: rq filter_map comp_def)
  have "map fst ?waits = map (\<lambda>r. Wait (request r)) ?started"
    by (rule map_fst_map2) simp
  also have "\<dots> = map Wait (map request ?started)"
    by simp
  finally have waits: "map fst ?waits = map Wait (filter (\<lambda>k. \<not> fails w k) ?ks)"
    by (simp only: started)
  have sends: "map fst ?sends = map (\<lambda>n. Isend rank n tg bs) ns"
    by (rule map_fst_map2) simp
  show "map fst (new_calls w w') =
           map (\<lambda>n. Isend rank n tg bs) ns @ map Wait (filter (\<lambda>k. \<not> fails w k) ?ks)"
    by (simp only: new map_append sends waits)
  have snds: "map snd ?sends = map (\<lambda>k. \<not> fails w k) ?ks"
    by (rule map_snd_map2) simp
  have "list_all snd ?sends = list_all (\<lambda>b. b) (map snd ?sends)"
    by (simp only: list.pred_map comp_def)
  also have "\<dots> = list_all (\<lambda>k. \<not> fails w k) ?ks"
    by (simp only: snds list.pred_map comp_def)
  also have "\<dots> = list_all success rq"
    by (simp add: rq list.pred_map comp_def)
  finally have all_sends: "list_all snd ?sends = list_all success rq" .
  have "drop (length (trace w1)) (trace w') = ?waits"
    by (simp add: tr2)
  with wait_each_result [OF t] have "ok = (list_all success rq \<and> list_all snd ?waits)"
    by simp
  with all_sends show res: "ok = list_all snd (new_calls w w')"
    by (simp add: new)
  show "length (new_calls w w') = 2 * length ns" if ok
  proof -
    from that res new all_sends have "list_all success rq" by simp
    then have "?started = rq" by (simp add: list_all_iff)
    then have "length ?started = length ns" by (simp add: rq)
    then show ?thesis by (simp add: new)
  qed
qed

lemma unseen_nodes_distinct: "distinct acc \<Longrightarrow> distinct (unseen_nodes rank acc ts)"
  by (induction ts arbitrary: acc) simp_all

lemma unseen_nodes_set: "set (unseen_nodes rank acc ts) = set acc \<union> (node ` set ts - {rank})"
  by (induction ts arbitrary: acc) auto

lemma op_request_calls:
  "case op_request K rank cmd w of (ok, w') \<Rightarrow>
     map fst (new_calls w w') =
       map (\<lambda>n. Isend rank n (SEND_CMD_TAG K) (byte_image cmd)) (filter (\<lambda>n. n \<noteq> rank) (get_nodes cmd)) @
       map Wait (filter (\<lambda>k. \<not> fails w k)
                  [length (trace w) ..< length (trace w) + length (filter (\<lambda>n. n \<noteq> rank) (get_nodes cmd))]) \<and>
     ok = (list_all snd (new_calls w w') \<and>
           length (new_calls w w') = 2 * length (filter (\<lambda>n. n \<noteq> rank) (get_nodes cmd)))"
proof -
  let ?ns = "filter (\<lambda>n. n \<noteq> rank) (get_nodes cmd)"
  obtain rq w1 where s: "isend_each rank (byte_image cmd) (SEND_CMD_TAG K) [] ?ns w = (rq, w1)"
    by (metis surj_pair)
  obtain ok w' where t: "wait_each True rq w1 = (ok, w')"
    by (metis surj_pair)
  have r: "op_request K rank cmd w = (ok, w')"
    by (simp add: op_request_def other_nodes_filter s t)
  note d = dispatch_calls [OF s t]
  have "ok = (list_all snd (new_calls w w') \<and> length (new_calls w w') = 2 * length ?ns)"
    using d(2) d(3) by blast
  then show ?thesis
    using d(1) by (simp add: r)
qed

text \<open>
  C1, as the code has it. Let \<^verbatim>\<open>get_nodes()\<close> name no node twice, as the participants of a
  command, a set in the spec, do. \<^verbatim>\<open>op_request\<close> starts one non-blocking send on
  \<^verbatim>\<open>SEND_CMD_TAG\<close>, carrying the command, to each node of a list without repetitions whose
  members are exactly the nodes of \<^verbatim>\<open>get_nodes()\<close> other than the caller's rank; then it
  waits once on every send that started, and on no other. It returns true exactly when
  every one of these calls succeeded and every send was waited on.
\<close>

theorem op_request_sends:
  assumes "distinct (get_nodes cmd)"
  shows "case op_request K rank cmd w of (ok, w') \<Rightarrow>
     (\<exists>dests. distinct dests \<and>
        set dests = set (get_nodes cmd) - {rank} \<and>
        map fst (new_calls w w') =
          map (\<lambda>n. Isend rank n (SEND_CMD_TAG K) (byte_image cmd)) dests @
          map Wait (filter (\<lambda>k. \<not> fails w k) [length (trace w) ..< length (trace w) + length dests]) \<and>
        ok = (list_all snd (new_calls w w') \<and> length (new_calls w w') = 2 * length dests))"
proof -
  let ?ns = "filter (\<lambda>n. n \<noteq> rank) (get_nodes cmd)"
  obtain ok w' where r: "op_request K rank cmd w = (ok, w')"
    by (metis surj_pair)
  from op_request_calls [where K = K and rank = rank and cmd = cmd and w = w] r
  have calls: "map fst (new_calls w w') =
          map (\<lambda>n. Isend rank n (SEND_CMD_TAG K) (byte_image cmd)) ?ns @
          map Wait (filter (\<lambda>k. \<not> fails w k) [length (trace w) ..< length (trace w) + length ?ns])"
    and res: "ok = (list_all snd (new_calls w w') \<and> length (new_calls w w') = 2 * length ?ns)"
    by simp_all
  have dist: "distinct ?ns"
    using assms by simp
  have tgt: "set ?ns = set (get_nodes cmd) - {rank}"
    by auto
  from dist tgt calls res have "\<exists>dests. distinct dests \<and>
        set dests = set (get_nodes cmd) - {rank} \<and>
        map fst (new_calls w w') =
          map (\<lambda>n. Isend rank n (SEND_CMD_TAG K) (byte_image cmd)) dests @
          map Wait (filter (\<lambda>k. \<not> fails w k) [length (trace w) ..< length (trace w) + length dests]) \<and>
        ok = (list_all snd (new_calls w w') \<and> length (new_calls w w') = 2 * length dests)"
    by blast
  with r show ?thesis by simp
qed

theorem op_request_sends_witness:
  "distinct (get_nodes cmd_example) \<and>
   fst (op_request K_example 1 cmd_example quiet_world) \<and>
   map fst (trace (snd (op_request K_example 1 cmd_example quiet_world))) =
     [Isend 1 0 1 [7], Isend 1 3 1 [7], Wait 0, Wait 1] \<and>
   set (get_nodes cmd_example) - {1} = {0, 3}"
  using op_request_sends [where K = K_example and rank = 1 and cmd = cmd_example and w = quiet_world]
  by (auto simp: cmd_example_def quiet_world_def K_example_def new_calls_def op_request_def
      MPI_Isend_def MPI_Wait_def answer_def record_call_def post_def)

text \<open>
  C1 as stated fails where it says that \<^verbatim>\<open>op_request\<close> waits on all of the sends: a send
  that did not start is not waited on (\<^verbatim>\<open>r.success && MPI_Wait(...)\<close>). When the first
  transport call fails, the send to node 0 does not start, the send to node 3 does, and
  there is one wait, on the second send; the result is false.
\<close>

theorem op_request_wait_counterexample:
  "op_request K_example 1 cmd_example world_first_fails =
     (False, world_first_fails
        \<lparr>pending := [\<lparr>src = 1, dst = 3, wire_tag = 1, payload = [7]\<rparr>],
         trace := [(Isend 1 0 1 [7], False), (Isend 1 3 1 [7], True), (Wait 1, True)]\<rparr>)"
  by (simp add: op_request_def cmd_example_def world_first_fails_def K_example_def MPI_Isend_def
      MPI_Wait_def answer_def record_call_def post_def)

text \<open>
  C2. \<^verbatim>\<open>forward_cmd\<close> starts one non-blocking send on \<^verbatim>\<open>FORWARD_CMD_TAG\<close>, carrying the
  command, to each node of a list without repetitions whose members are exactly the
  nodes of the command's inputs and outputs other than the caller's rank; then it waits
  once on every send that started. It returns true exactly when every one of these calls
  succeeded and every send was waited on. Changing \<^verbatim>\<open>get_nodes()\<close> changes nothing.
\<close>

theorem forward_cmd_destinations:
  "case forward_cmd K rank cmd w of (ok, w') \<Rightarrow>
     (\<exists>dests. distinct dests \<and>
        set dests = node ` (set (inputs cmd) \<union> set (outputs cmd)) - {rank} \<and>
        map fst (new_calls w w') =
          map (\<lambda>n. Isend rank n (FORWARD_CMD_TAG K) (byte_image cmd)) dests @
          map Wait (filter (\<lambda>k. \<not> fails w k) [length (trace w) ..< length (trace w) + length dests]) \<and>
        ok = (list_all snd (new_calls w w') \<and> length (new_calls w w') = 2 * length dests)) \<and>
     forward_cmd K rank (cmd\<lparr>get_nodes := ns\<rparr>) w = (ok, w')"
proof -
  let ?ns = "unseen_nodes rank (unseen_nodes rank [] (inputs cmd)) (outputs cmd)"
  obtain rq w1 where s: "isend_each rank (byte_image cmd) (FORWARD_CMD_TAG K) [] ?ns w = (rq, w1)"
    by (metis surj_pair)
  obtain ok w' where t: "wait_each True rq w1 = (ok, w')"
    by (metis surj_pair)
  have r: "forward_cmd K rank cmd w = (ok, w')"
    by (simp add: forward_cmd_def s t)
  have r': "forward_cmd K rank (cmd\<lparr>get_nodes := ns\<rparr>) w = (ok, w')"
    by (simp add: forward_cmd_def s t)
  note d = dispatch_calls [OF s t]
  have res: "ok = (list_all snd (new_calls w w') \<and> length (new_calls w w') = 2 * length ?ns)"
    using d(2) d(3) by blast
  have dist: "distinct ?ns"
    by (simp add: unseen_nodes_distinct)
  have tgt: "set ?ns = node ` (set (inputs cmd) \<union> set (outputs cmd)) - {rank}"
    by (auto simp: unseen_nodes_set)
  from dist tgt d(1) res have "\<exists>dests. distinct dests \<and>
        set dests = node ` (set (inputs cmd) \<union> set (outputs cmd)) - {rank} \<and>
        map fst (new_calls w w') =
          map (\<lambda>n. Isend rank n (FORWARD_CMD_TAG K) (byte_image cmd)) dests @
          map Wait (filter (\<lambda>k. \<not> fails w k) [length (trace w) ..< length (trace w) + length dests]) \<and>
        ok = (list_all snd (new_calls w w') \<and> length (new_calls w w') = 2 * length dests)"
    by blast
  with r r' show ?thesis by simp
qed

theorem forward_cmd_destinations_witness:
  "fst (forward_cmd K_example 0 cmd_example quiet_world) \<and>
   map fst (trace (snd (forward_cmd K_example 0 cmd_example quiet_world))) =
     [Isend 0 1 2 [7], Isend 0 2 2 [7], Wait 0, Wait 1] \<and>
   forward_cmd K_example 0 (cmd_example\<lparr>get_nodes := []\<rparr>) quiet_world =
     forward_cmd K_example 0 cmd_example quiet_world"
  using forward_cmd_destinations [where K = K_example and rank = 0 and cmd = cmd_example
      and w = quiet_world and ns = "[]"]
  by (simp add: cmd_example_def quiet_world_def K_example_def forward_cmd_def
      MPI_Isend_def MPI_Wait_def answer_def record_call_def post_def)

text \<open>
  C10. When every node of \<^verbatim>\<open>get_nodes()\<close> is the caller's rank, \<^verbatim>\<open>op_request\<close> makes no
  transport call, leaves the world as it was and returns true; when every node of the
  inputs and outputs is the caller's rank, so does \<^verbatim>\<open>forward_cmd\<close>.
\<close>

theorem no_destination_no_call:
  "(set (get_nodes cmd) \<subseteq> {rank} \<longrightarrow> op_request K rank cmd w = (True, w)) \<and>
   (node ` (set (inputs cmd) \<union> set (outputs cmd)) \<subseteq> {rank} \<longrightarrow> forward_cmd K rank cmd w = (True, w))"
proof (intro conjI impI)
  assume "set (get_nodes cmd) \<subseteq> {rank}"
  then have "filter (\<lambda>n. n \<noteq> rank) (get_nodes cmd) = []"
    by (auto simp: filter_empty_conv)
  then show "op_request K rank cmd w = (True, w)"
    by (simp add: op_request_def other_nodes_filter)
next
  assume a: "node ` (set (inputs cmd) \<union> set (outputs cmd)) \<subseteq> {rank}"
  have "set (unseen_nodes rank (unseen_nodes rank [] (inputs cmd)) (outputs cmd)) = {}"
    using a by (auto simp: unseen_nodes_set)
  then have "unseen_nodes rank (unseen_nodes rank [] (inputs cmd)) (outputs cmd) = []"
    by simp
  then show "forward_cmd K rank cmd w = (True, w)"
    by (simp add: forward_cmd_def)
qed

theorem no_destination_no_call_witness:
  "set (get_nodes cmd_local) \<subseteq> {0} \<and>
   op_request K_example 0 cmd_local quiet_world = (True, quiet_world) \<and>
   node ` (set (inputs cmd_local) \<union> set (outputs cmd_local)) \<subseteq> {0} \<and>
   forward_cmd K_example 0 cmd_local quiet_world = (True, quiet_world)"
  using no_destination_no_call [where cmd = cmd_local and rank = 0 and K = K_example and w = quiet_world]
  by (simp add: cmd_local_def)

section \<open>The free tags\<close>

lemma sint_shift:
  fixes T F :: "32 word"
  assumes "0 \<le> sint T" "sint T + sint F < 2 ^ 31"
  shows "sint (T + F) = sint T + sint F"
proof -
  have "- (2 ^ 31) \<le> sint F" using sint_ge [of F] by simp
  with assms have "- (2 ^ 31) \<le> sint T + sint F" by linarith
  with assms(2) show ?thesis
    by (simp add: sint_word_ariths signed_take_bit_int_eq_self)
qed

lemma shifted_tag_differs:
  fixes T F R :: "32 word"
  assumes "sint R < sint F" "0 \<le> sint T" "sint T + sint F < 2 ^ 31"
  shows "T + F \<noteq> R"
proof
  assume "T + F = R"
  then have "sint (T + F) = sint R" by simp
  with sint_shift [OF assms(2,3)] assms(1,2) show False by linarith
qed

text \<open>
  C6, as the code has it. When each of the three reserved tags is below \<^verbatim>\<open>FREE_TAG\<close>, the
  tag \<open>T\<close> that the caller chose is not negative and \<open>T + FREE_TAG\<close> does not overflow, the
  tag \<open>T + FREE_TAG\<close> is none of the reserved tags, and it is the tag of the one transport
  call that \<^verbatim>\<open>send_sync\<close>, \<^verbatim>\<open>send_async\<close>, \<^verbatim>\<open>recv_sync\<close> and \<^verbatim>\<open>expect_request_sync\<close> each make.
\<close>

theorem free_tags_apart:
  assumes "sint (SEND_CMD_TAG K) < sint (FREE_TAG K)"
    and "sint (FORWARD_CMD_TAG K) < sint (FREE_TAG K)"
    and "sint (NOTIFY_TENSOR_TAG K) < sint (FREE_TAG K)"
    and "0 \<le> sint T"
    and "sint T + sint (FREE_TAG K) < 2 ^ 31"
  shows "T + FREE_TAG K \<notin> {SEND_CMD_TAG K, FORWARD_CMD_TAG K, NOTIFY_TENSOR_TAG K} \<and>
         map fst (new_calls w (snd (send_sync K rank bs n T w))) = [Ssend rank n (T + FREE_TAG K) bs] \<and>
         map fst (new_calls w (snd (send_async K rank bs n T w))) = [Isend rank n (T + FREE_TAG K) bs] \<and>
         calls_of w (recv_sync K rank buf count n T w) = [Recv rank n (T + FREE_TAG K) count] \<and>
         calls_of w (expect_request_sync K rank n T w) = [Mprobe rank n (T + FREE_TAG K)]"
proof -
  have "T + FREE_TAG K \<notin> {SEND_CMD_TAG K, FORWARD_CMD_TAG K, NOTIFY_TENSOR_TAG K}"
    using shifted_tag_differs [OF assms(1) assms(4,5)] shifted_tag_differs [OF assms(2) assms(4,5)]
      shifted_tag_differs [OF assms(3) assms(4,5)] by simp
  moreover have "map fst (new_calls w (snd (send_sync K rank bs n T w))) = [Ssend rank n (T + FREE_TAG K) bs]"
    by (simp add: send_sync_def MPI_Ssend_def new_calls_def record_call_def post_def)
  moreover have "map fst (new_calls w (snd (send_async K rank bs n T w))) = [Isend rank n (T + FREE_TAG K) bs]"
    by (simp add: send_async_def MPI_Isend_def new_calls_def record_call_def post_def)
  moreover have "calls_of w (recv_sync K rank buf count n T w) = [Recv rank n (T + FREE_TAG K) count]"
    by (simp add: recv_sync_def MPI_Recv_def new_calls_def record_call_def split: option.splits)
  moreover have "calls_of w (expect_request_sync K rank n T w) = [Mprobe rank n (T + FREE_TAG K)]"
    by (simp add: expect_request_sync_def MPI_Mprobe_def new_calls_def record_call_def split: option.splits)
  ultimately show ?thesis by blast
qed

theorem free_tags_apart_witness:
  "sint (SEND_CMD_TAG K_example) < sint (FREE_TAG K_example) \<and>
   sint (FORWARD_CMD_TAG K_example) < sint (FREE_TAG K_example) \<and>
   sint (NOTIFY_TENSOR_TAG K_example) < sint (FREE_TAG K_example) \<and>
   (0::int) \<le> sint (5 :: com_tags) \<and> sint (5 :: com_tags) + sint (FREE_TAG K_example) < 2 ^ 31 \<and>
   (5 :: com_tags) + FREE_TAG K_example \<notin> {SEND_CMD_TAG K_example, FORWARD_CMD_TAG K_example, NOTIFY_TENSOR_TAG K_example} \<and>
   map fst (trace (snd (send_sync K_example 0 [7] 1 5 quiet_world))) = [Ssend 0 1 9 [7]]"
  using free_tags_apart [where K = K_example and T = 5 and w = quiet_world and rank = 0 and bs = "[7]" and n = 1]
  by (simp add: K_example_def quiet_world_def new_calls_def)

text \<open>
  C6 as stated fails for a negative tag: the functions add \<^verbatim>\<open>FREE_TAG\<close> to whatever tag
  they are given. With the reserved tags 1, 2, 3 and \<^verbatim>\<open>FREE_TAG\<close> 4, \<^verbatim>\<open>send_sync\<close> with the tag
  \<open>-3\<close> sends on \<^verbatim>\<open>SEND_CMD_TAG\<close>.
\<close>

theorem negative_tag_counterexample:
  "trace (snd (send_sync K_example 0 [7] 1 (- 3) quiet_world)) =
     [(Ssend 0 1 (SEND_CMD_TAG K_example) [7], True)]"
  by (simp add: send_sync_def MPI_Ssend_def K_example_def quiet_world_def answer_def record_call_def post_def
      int_count_def)

text \<open>
  Whatever the values of the constants are, one tag is shifted onto \<^verbatim>\<open>SEND_CMD_TAG\<close>.
\<close>

lemma shifted_tag_can_be_reserved:
  "map fst (new_calls w (snd (send_sync K rank bs n (SEND_CMD_TAG K - FREE_TAG K) w))) =
     [Ssend rank n (SEND_CMD_TAG K) bs]"
  by (simp add: send_sync_def MPI_Ssend_def new_calls_def record_call_def post_def)

section \<open>A synchronous send, probed and received\<close>

lemma find_snoc:
  "find P xs = None \<Longrightarrow> P e \<Longrightarrow> find P (xs @ [e]) = Some e"
  by (induction xs) (simp_all split: if_splits)

lemma overwrite_whole: "length buf = length bs \<Longrightarrow> overwrite bs buf = bs"
  by (simp add: overwrite_def)

text \<open>
  C5, as the code has it. Node \<open>A\<close> sends the bytes \<open>P\<close>, fewer than \<open>2^31\<close> of them, to node
  \<open>B\<close> with \<^verbatim>\<open>send_sync\<close> under the tag \<open>T\<close>; node \<open>B\<close> probes with \<^verbatim>\<open>expect_request_sync\<close>
  for the tag \<open>T\<close> from \<open>A\<close> or from any node, and receives with \<^verbatim>\<open>receive_request_sync\<close>
  into a buffer as long as the probe said. When no older message is pending that the
  probe would take instead, and the three transport calls succeed, the probed length is
  the length of \<open>P\<close> and, whatever the buffer held, it holds \<open>P\<close> afterwards.
\<close>

theorem send_sync_round_trip:
  assumes short: "length P < 2 ^ 31"
    and quiet: "find (matches K B s (T + FREE_TAG K)) (pending w) = None"
    and from_A: "s = A \<or> s = ANY_NODE K"
    and ok: "\<not> fails w (length (trace w))" "\<not> fails w (Suc (length (trace w)))"
            "\<not> fails w (Suc (Suc (length (trace w))))"
  shows "\<exists>w1 req w2.
           send_sync K A P B T w = (True, w1) \<and>
           expect_request_sync K B s T w1 = Returns req w2 \<and>
           num_bytes req = length P \<and> message_tag req = T + FREE_TAG K \<and>
           (\<forall>buf. length buf = num_bytes req \<longrightarrow>
              (\<exists>w3. receive_request_sync B buf req w2 = Returns (True, P) w3))"
proof -
  let ?e = "\<lparr>src = A, dst = B, wire_tag = T + FREE_TAG K, payload = P\<rparr>"
  let ?w1 = "record_call (Ssend A B (T + FREE_TAG K) P) True (post ?e w)"
  have sent: "send_sync K A P B T w = (True, ?w1)"
    using ok(1) by (simp add: send_sync_def MPI_Ssend_def answer_def int_count_small [OF short])
  have "matches K B s (T + FREE_TAG K) ?e"
    using from_A by (auto simp: matches_def)
  with quiet have found: "find (matches K B s (T + FREE_TAG K)) (pending ?w1) = Some ?e"
    by (simp add: record_call_def post_def find_snoc)
  let ?req = "fresh_request\<lparr>message := Some ?e, num_bytes := MPI_Get_count ?e, message_tag := wire_tag ?e\<rparr>"
  let ?w2 = "record_call (Mprobe B s (T + FREE_TAG K)) True (?w1\<lparr>pending := remove1 ?e (pending ?w1)\<rparr>)"
  have probed: "expect_request_sync K B s T ?w1 = Returns ?req ?w2"
    using ok(2) found by (simp add: expect_request_sync_def MPI_Mprobe_def answer_def record_call_def post_def)
  have len: "num_bytes ?req = length P \<and> message_tag ?req = T + FREE_TAG K"
    by (simp add: fresh_request_def MPI_Get_count_def)
  have "answer ?w2"
    using ok(3) by (simp add: answer_def record_call_def post_def)
  then have received: "receive_request_sync B buf ?req ?w2 = Returns (True, P) (record_call (Mrecv B (length P)) True ?w2)"
    if "length buf = num_bytes ?req" for buf
    using that by (simp add: receive_request_sync_def MPI_Mrecv_def MPI_Get_count_def overwrite_whole)
  then have "\<forall>buf. length buf = num_bytes ?req \<longrightarrow>
              (\<exists>w3. receive_request_sync B buf ?req ?w2 = Returns (True, P) w3)"
    by blast
  with sent probed len show ?thesis by blast
qed

theorem send_sync_round_trip_witness:
  "length [7, 8 :: byte] < 2 ^ 31 \<and>
   find (matches K_example 1 0 (5 + FREE_TAG K_example)) (pending quiet_world) = None \<and>
   \<not> fails quiet_world (length (trace quiet_world)) \<and>
   \<not> fails quiet_world (Suc (length (trace quiet_world))) \<and>
   \<not> fails quiet_world (Suc (Suc (length (trace quiet_world)))) \<and>
   (\<exists>w1 req w2 w3.
      send_sync K_example 0 [7, 8] 1 5 quiet_world = (True, w1) \<and>
      expect_request_sync K_example 1 0 5 w1 = Returns req w2 \<and>
      num_bytes req = length [7, 8 :: byte] \<and> length [0, 0 :: byte] = num_bytes req \<and>
      receive_request_sync 1 [0, 0] req w2 = Returns (True, [7, 8]) w3)"
proof -
  from send_sync_round_trip [where K = K_example and A = 0 and B = 1 and s = 0 and T = 5
      and w = quiet_world and P = "[7, 8]"]
  obtain w1 req w2 where
    r: "send_sync K_example 0 [7, 8] 1 5 quiet_world = (True, w1)"
      "expect_request_sync K_example 1 0 5 w1 = Returns req w2"
      "num_bytes req = length [7, 8 :: byte]"
      "\<forall>buf. length buf = num_bytes req \<longrightarrow> (\<exists>w3. receive_request_sync 1 buf req w2 = Returns (True, [7, 8]) w3)"
    by (auto simp: quiet_world_def K_example_def)
  from r(3) have l: "length [0, 0 :: byte] = num_bytes req" by simp
  with r(4) obtain w3 where "receive_request_sync 1 [0, 0] req w2 = Returns (True, [7, 8]) w3"
    by blast
  with r l show ?thesis
    by (auto simp: quiet_world_def K_example_def)
qed

text \<open>
  C5 as stated fails for a payload of \<open>2^32 + 1\<close> bytes: \<^verbatim>\<open>send_sync\<close> passes its \<^verbatim>\<open>size_t\<close>
  length to the \<^verbatim>\<open>int\<close> count of the transport, which is 1 then. One byte is sent, the
  probe on the other node says one byte, and the buffer of that length holds the first
  byte of the payload.
\<close>

theorem send_sync_long_payload_counterexample:
  "length long_payload = 2 ^ 32 + 1 \<and>
   (\<exists>w1 req w2 w3.
      send_sync K_example 0 long_payload 1 5 quiet_world = (True, w1) \<and>
      expect_request_sync K_example 1 0 5 w1 = Returns req w2 \<and>
      num_bytes req = 1 \<and>
      receive_request_sync 1 [0] req w2 = Returns (True, [7]) w3)"
proof -
  have len: "length long_payload = 2 ^ 32 + 1"
    by (simp add: long_payload_def)
  have "int_count (length long_payload) = 1"
    unfolding len int_count_wraps by (simp add: int_count_def)
  moreover have "take (Suc 0) long_payload = [7]"
    by (simp add: long_payload_def)
  ultimately have "\<exists>w1 req w2 w3.
      send_sync K_example 0 long_payload 1 5 quiet_world = (True, w1) \<and>
      expect_request_sync K_example 1 0 5 w1 = Returns req w2 \<and>
      num_bytes req = 1 \<and>
      receive_request_sync 1 [0] req w2 = Returns (True, [7]) w3"
    by (simp add: send_sync_def MPI_Ssend_def expect_request_sync_def MPI_Mprobe_def
        receive_request_sync_def MPI_Mrecv_def MPI_Get_count_def fresh_request_def answer_def
        record_call_def post_def matches_def overwrite_def quiet_world_def K_example_def)
  with len show ?thesis by blast
qed

section \<open>Tensor notifications\<close>

subsection \<open>Tensor ids and their bytes\<close>

lemma byte_high_bit: "\<not> bit (b :: byte) (8 + n)" "\<not> bit b (16 + n)" "\<not> bit b (24 + n)"
  by (auto dest: bit_imp_le_length)

lemma bytes_of_tid_of_bytes: "bytes_of_tid (tid_of_bytes b0 b1 b2 b3) = [b0, b1, b2, b3]"
  unfolding bytes_of_tid_def tid_of_bytes_def
  by (simp, intro conjI; rule bit_word_eqI) (auto simp: bit_simps byte_high_bit)

lemma tid_of_bytes_of_tid:
  "tid_of_bytes (ucast x) (ucast (drop_bit 8 x)) (ucast (drop_bit 16 x)) (ucast (drop_bit 24 x)) = (x :: tid_t)"
  unfolding tid_of_bytes_def
proof (rule bit_word_eqI)
  fix n assume n: "n < LENGTH(32)"
  consider "n < 8" | "8 \<le> n" "n < 16" | "16 \<le> n" "n < 24" | "24 \<le> n" by linarith
  then show "bit (ucast (ucast x :: byte) OR push_bit 8 (ucast (ucast (drop_bit 8 x) :: byte)) OR
               push_bit 16 (ucast (ucast (drop_bit 16 x) :: byte)) OR
               push_bit 24 (ucast (ucast (drop_bit 24 x) :: byte)) :: tid_t) n = bit x n"
    using n by cases (auto simp: bit_simps)
qed

lemma tids_of_bytes_of_tids: "tids_of_bytes (bytes_of_tids xs) = xs"
  by (induction xs) (simp_all add: bytes_of_tids_def bytes_of_tid_def tid_of_bytes_of_tid)

lemma bytes_of_tids_of_bytes:
  "length bs mod 4 = 0 \<Longrightarrow> bytes_of_tids (tids_of_bytes bs) = bs"
proof (induction bs rule: tids_of_bytes.induct)
  case (1 b0 b1 b2 b3 bs)
  then show ?case by (simp add: bytes_of_tids_def bytes_of_tid_of_bytes)
qed (simp_all add: bytes_of_tids_def)

lemma length_tids_of_bytes: "length (tids_of_bytes bs) = length bs div 4"
  by (induction bs rule: tids_of_bytes.induct) simp_all

lemma length_bytes_of_tids: "length (bytes_of_tids xs) = 4 * length xs"
  by (induction xs) (simp_all add: bytes_of_tids_def bytes_of_tid_def)

subsection \<open>The ways \<^verbatim>\<open>receive_tensor_created_notification\<close> ends\<close>

lemmas notification_defs = receive_tensor_created_notification_def MPI_Mprobe_def MPI_Mrecv_def
  MPI_Get_count_def answer_def record_call_def Let_def

lemma notification_probe_fails:
  assumes "fails w (length (trace w))"
  shows "receive_tensor_created_notification K rank w =
           Returns (- 1, []) (record_call (Mprobe rank (ANY_NODE K) (NOTIFY_TENSOR_TAG K)) False w)"
  using assms by (simp add: notification_defs)

lemma notification_receive_fails:
  assumes "\<not> fails w (length (trace w))"
    and "find (matches K rank (ANY_NODE K) (NOTIFY_TENSOR_TAG K)) (pending w) = Some e"
    and "fails w (Suc (length (trace w)))"
  shows "\<exists>w'. receive_tensor_created_notification K rank w = Returns (- 1, []) w'"
  using assms by (simp add: notification_defs)

lemma notification_received:
  assumes "\<not> fails w (length (trace w))"
    and "find (matches K rank (ANY_NODE K) (NOTIFY_TENSOR_TAG K)) (pending w) = Some e"
    and "\<not> fails w (Suc (length (trace w)))"
    and "length (payload e) mod sizeof_tid = 0"
  shows "\<exists>w'. receive_tensor_created_notification K rank w = Returns (src e, tids_of_bytes (payload e)) w'"
proof -
  from assms(4) have whole: "length (payload e) div sizeof_tid * sizeof_tid = length (payload e)"
    by (simp add: sizeof_tid_def) presburger
  have "length (bytes_of_tids (replicate (length (payload e) div sizeof_tid) 0)) = length (payload e)"
    using whole by (simp add: length_bytes_of_tids sizeof_tid_def mult.commute)
  then have "overwrite (payload e) (bytes_of_tids (replicate (length (payload e) div sizeof_tid) 0)) = payload e"
    by (rule overwrite_whole)
  with assms(1-3) whole show ?thesis
    by (simp add: notification_defs)
qed

lemma notification_overrun:
  assumes "\<not> fails w (length (trace w))"
    and "find (matches K rank (ANY_NODE K) (NOTIFY_TENSOR_TAG K)) (pending w) = Some e"
    and "\<not> fails w (Suc (length (trace w)))"
    and "length (payload e) mod sizeof_tid \<noteq> 0"
  shows "receive_tensor_created_notification K rank w = Overrun (Mrecv rank (length (payload e)))"
proof -
  have "length (payload e) div sizeof_tid * sizeof_tid + length (payload e) mod sizeof_tid = length (payload e)"
    by simp
  with assms(4) have "length (payload e) div sizeof_tid * sizeof_tid < length (payload e)"
    by linarith
  with assms(1-3) show ?thesis
    by (simp add: notification_defs)
qed

text \<open>
  C8, as the code has it. When the probe fails, \<^verbatim>\<open>receive_tensor_created_notification\<close>
  returns \<open>(-1, [])\<close>. When the probe takes a message and the receive fails, it returns
  \<open>(-1, [])\<close>. When the probe takes a message whose length is a multiple of
  \<^verbatim>\<open>sizeof(tid_t)\<close> and the receive succeeds, it returns the sender of the message and the
  tensor ids that the bytes of the message are.
\<close>

theorem receive_notification_outcomes:
  "(fails w (length (trace w)) \<longrightarrow>
      (\<exists>w'. receive_tensor_created_notification K rank w = Returns (- 1, []) w')) \<and>
   (\<not> fails w (length (trace w)) \<and>
    find (matches K rank (ANY_NODE K) (NOTIFY_TENSOR_TAG K)) (pending w) = Some e \<and>
    fails w (Suc (length (trace w))) \<longrightarrow>
      (\<exists>w'. receive_tensor_created_notification K rank w = Returns (- 1, []) w')) \<and>
   (\<not> fails w (length (trace w)) \<and>
    find (matches K rank (ANY_NODE K) (NOTIFY_TENSOR_TAG K)) (pending w) = Some e \<and>
    \<not> fails w (Suc (length (trace w))) \<and> length (payload e) mod sizeof_tid = 0 \<longrightarrow>
      (\<exists>w'. receive_tensor_created_notification K rank w = Returns (src e, tids_of_bytes (payload e)) w'))"
  using notification_probe_fails [of w K rank] notification_receive_fails [of w K rank e]
    notification_received [of w K rank e]
  by simp

theorem receive_notification_outcomes_witness:
  "fails world_probe_fails (length (trace world_probe_fails)) \<and>
   (\<exists>w'. receive_tensor_created_notification K_example 0 world_probe_fails = Returns (- 1, []) w') \<and>
   \<not> fails world_receive_fails (length (trace world_receive_fails)) \<and>
   fails world_receive_fails (Suc (length (trace world_receive_fails))) \<and>
   (\<exists>w'. receive_tensor_created_notification K_example 0 world_receive_fails = Returns (- 1, []) w') \<and>
   find (matches K_example 0 (ANY_NODE K_example) (NOTIFY_TENSOR_TAG K_example)) (pending world_receive_fails)
     = Some \<lparr>src = 1, dst = 0, wire_tag = 3, payload = [1, 0, 0, 0]\<rparr> \<and>
   \<not> fails world_notified (length (trace world_notified)) \<and>
   \<not> fails world_notified (Suc (length (trace world_notified))) \<and>
   find (matches K_example 0 (ANY_NODE K_example) (NOTIFY_TENSOR_TAG K_example)) (pending world_notified)
     = Some \<lparr>src = 1, dst = 0, wire_tag = 3, payload = [1, 0, 0, 0, 2, 1, 0, 0]\<rparr> \<and>
   length [1, 0, 0, 0, 2, 1, 0, 0 :: byte] mod sizeof_tid = 0 \<and>
   (\<exists>w'. receive_tensor_created_notification K_example 0 world_notified = Returns (1, [1, 258]) w')"
  using receive_notification_outcomes [where K = K_example and rank = 0 and w = world_probe_fails]
    receive_notification_outcomes [where K = K_example and rank = 0 and w = world_receive_fails
      and e = "\<lparr>src = 1, dst = 0, wire_tag = 3, payload = [1, 0, 0, 0]\<rparr>"]
    receive_notification_outcomes [where K = K_example and rank = 0 and w = world_notified
      and e = "\<lparr>src = 1, dst = 0, wire_tag = 3, payload = [1, 0, 0, 0, 2, 1, 0, 0]\<rparr>"]
  by (simp add: world_probe_fails_def world_receive_fails_def world_notified_def K_example_def
      matches_def sizeof_tid_def tid_of_bytes_def)

text \<open>
  C8 as stated fails when probe and receive succeed on a message whose length is not a
  multiple of \<^verbatim>\<open>sizeof(tid_t)\<close>: for five bytes the vector has room for one id, four bytes,
  and the receive is asked to write five bytes to it.
\<close>

theorem receive_notification_overrun_counterexample:
  "receive_tensor_created_notification K_example 0 world_five_bytes = Overrun (Mrecv 0 5)"
  by (simp add: notification_defs world_five_bytes_def K_example_def matches_def sizeof_tid_def)

text \<open>
  C9, as the code has it. For a message of \<open>n\<close> bytes, \<open>n\<close> a multiple of \<^verbatim>\<open>sizeof(tid_t)\<close>,
  that probe and receive deliver, the list returned has \<open>n / sizeof(tid_t)\<close> tensor ids,
  and their bytes are the bytes of the message, all of them and in order.
\<close>

theorem notification_ids:
  assumes "\<not> fails w (length (trace w))"
    and "find (matches K rank (ANY_NODE K) (NOTIFY_TENSOR_TAG K)) (pending w) = Some e"
    and "\<not> fails w (Suc (length (trace w)))"
    and "length (payload e) mod sizeof_tid = 0"
  shows "\<exists>ids w'. receive_tensor_created_notification K rank w = Returns (src e, ids) w' \<and>
           length ids = length (payload e) div sizeof_tid \<and> bytes_of_tids ids = payload e"
proof -
  from notification_received [OF assms] obtain w'
    where "receive_tensor_created_notification K rank w = Returns (src e, tids_of_bytes (payload e)) w'"
    by blast
  moreover have "length (tids_of_bytes (payload e)) = length (payload e) div sizeof_tid"
    by (simp add: length_tids_of_bytes sizeof_tid_def)
  moreover have "bytes_of_tids (tids_of_bytes (payload e)) = payload e"
    using assms(4) by (simp add: bytes_of_tids_of_bytes sizeof_tid_def)
  ultimately show ?thesis by blast
qed

theorem notification_ids_witness:
  "\<not> fails world_notified (length (trace world_notified)) \<and>
   find (matches K_example 0 (ANY_NODE K_example) (NOTIFY_TENSOR_TAG K_example)) (pending world_notified)
     = Some \<lparr>src = 1, dst = 0, wire_tag = 3, payload = [1, 0, 0, 0, 2, 1, 0, 0]\<rparr> \<and>
   \<not> fails world_notified (Suc (length (trace world_notified))) \<and>
   length [1, 0, 0, 0, 2, 1, 0, 0 :: byte] mod sizeof_tid = 0 \<and>
   (\<exists>ids w'. receive_tensor_created_notification K_example 0 world_notified = Returns (1, ids) w' \<and>
      length ids = length [1, 0, 0, 0, 2, 1, 0, 0 :: byte] div sizeof_tid \<and>
      bytes_of_tids ids = [1, 0, 0, 0, 2, 1, 0, 0])"
  using notification_ids [where K = K_example and rank = 0 and w = world_notified
      and e = "\<lparr>src = 1, dst = 0, wire_tag = 3, payload = [1, 0, 0, 0, 2, 1, 0, 0]\<rparr>"]
  by (simp add: world_notified_def K_example_def matches_def sizeof_tid_def)

text \<open>
  C9 as stated fails when \<open>n\<close> is not a multiple of \<^verbatim>\<open>sizeof(tid_t)\<close>: the bytes after the
  last whole id are not dropped, they are written past the end of the vector. For six
  bytes the vector has room for four.
\<close>

theorem notification_trailing_bytes_counterexample:
  "receive_tensor_created_notification K_example 0 world_six_bytes = Overrun (Mrecv 0 6)"
  by (simp add: notification_defs world_six_bytes_def K_example_def matches_def sizeof_tid_def)

text \<open>
  C7. \<^verbatim>\<open>shutdown_notification_handler\<close> makes one transport call: a synchronous send to
  the caller's own rank on \<^verbatim>\<open>NOTIFY_TENSOR_TAG\<close> of the bytes of the list \<open>[-1]\<close>. When no
  notification is pending for the node, so that \<^verbatim>\<open>receive_tensor_created_notification\<close>
  waits in its probe, and the send, the probe and the receive succeed, then after the
  send \<^verbatim>\<open>receive_tensor_created_notification\<close> returns the node's own rank and \<open>[-1]\<close>.
\<close>

theorem shutdown_notification_unblocks:
  "map fst (new_calls w (snd (shutdown_notification_handler K rank w))) =
     [Ssend rank rank (NOTIFY_TENSOR_TAG K) (bytes_of_tids [- 1])] \<and>
   (find (matches K rank (ANY_NODE K) (NOTIFY_TENSOR_TAG K)) (pending w) = None \<and>
    \<not> fails w (length (trace w)) \<and> \<not> fails w (Suc (length (trace w))) \<and>
    \<not> fails w (Suc (Suc (length (trace w)))) \<longrightarrow>
      receive_tensor_created_notification K rank w = Blocks (Mprobe rank (ANY_NODE K) (NOTIFY_TENSOR_TAG K)) \<and>
      (\<exists>w1 w2. shutdown_notification_handler K rank w = (True, w1) \<and>
         receive_tensor_created_notification K rank w1 = Returns (rank, [- 1]) w2))"
proof (intro conjI impI)
  show "map fst (new_calls w (snd (shutdown_notification_handler K rank w))) =
     [Ssend rank rank (NOTIFY_TENSOR_TAG K) (bytes_of_tids [- 1])]"
    by (simp add: shutdown_notification_handler_def MPI_Ssend_def new_calls_def record_call_def post_def Let_def)
next
  assume a: "find (matches K rank (ANY_NODE K) (NOTIFY_TENSOR_TAG K)) (pending w) = None \<and>
    \<not> fails w (length (trace w)) \<and> \<not> fails w (Suc (length (trace w))) \<and>
    \<not> fails w (Suc (Suc (length (trace w))))"
  then show "receive_tensor_created_notification K rank w = Blocks (Mprobe rank (ANY_NODE K) (NOTIFY_TENSOR_TAG K))"
    by (simp add: notification_defs)
  let ?e = "\<lparr>src = rank, dst = rank, wire_tag = NOTIFY_TENSOR_TAG K, payload = bytes_of_tids [- 1]\<rparr>"
  let ?w1 = "record_call (Ssend rank rank (NOTIFY_TENSOR_TAG K) (bytes_of_tids [- 1])) True (post ?e w)"
  have "int_count (length [- 1 :: tid_t] * sizeof_tid) = 4"
    by (simp add: int_count_def sizeof_tid_def)
  then have sent: "shutdown_notification_handler K rank w = (True, ?w1)"
    using a by (simp add: shutdown_notification_handler_def MPI_Ssend_def answer_def Let_def
        length_bytes_of_tids)
  have "matches K rank (ANY_NODE K) (NOTIFY_TENSOR_TAG K) ?e"
    by (simp add: matches_def)
  with a have found: "find (matches K rank (ANY_NODE K) (NOTIFY_TENSOR_TAG K)) (pending ?w1) = Some ?e"
    by (simp add: record_call_def post_def find_snoc)
  have "\<exists>w'. receive_tensor_created_notification K rank ?w1 = Returns (src ?e, tids_of_bytes (payload ?e)) w'"
  proof (rule notification_received [OF _ found])
    show "\<not> fails ?w1 (length (trace ?w1))" using a by (simp add: record_call_def post_def)
    show "\<not> fails ?w1 (Suc (length (trace ?w1)))" using a by (simp add: record_call_def post_def)
    show "length (payload ?e) mod sizeof_tid = 0" by (simp add: length_bytes_of_tids sizeof_tid_def)
  qed
  then obtain w2 where "receive_tensor_created_notification K rank ?w1 = Returns (rank, [- 1]) w2"
    by (auto simp: tids_of_bytes_of_tids)
  with sent show "\<exists>w1 w2. shutdown_notification_handler K rank w = (True, w1) \<and>
         receive_tensor_created_notification K rank w1 = Returns (rank, [- 1]) w2"
    by blast
qed

theorem shutdown_notification_unblocks_witness:
  "find (matches K_example 0 (ANY_NODE K_example) (NOTIFY_TENSOR_TAG K_example)) (pending quiet_world) = None \<and>
   \<not> fails quiet_world (length (trace quiet_world)) \<and>
   \<not> fails quiet_world (Suc (length (trace quiet_world))) \<and>
   \<not> fails quiet_world (Suc (Suc (length (trace quiet_world)))) \<and>
   receive_tensor_created_notification K_example 0 quiet_world = Blocks (Mprobe 0 (- 2) 3) \<and>
   (\<exists>w1 w2. shutdown_notification_handler K_example 0 quiet_world = (True, w1) \<and>
         receive_tensor_created_notification K_example 0 w1 = Returns (0, [- 1]) w2)"
  using shutdown_notification_unblocks [where K = K_example and rank = 0 and w = quiet_world]
  by (simp add: quiet_world_def K_example_def)

section \<open>The two transactions of \<^verbatim>\<open>apply\<close>\<close>

lemma metadata_transaction:
  assumes l: "tensors st (lhs self) = Some l" and r: "tensors st (rhs self) = Some r"
    and ty: "outputTypes (reduce_op self) = ty # tys"
  shows "local_transaction st [lhs self, rhs self] [] metadata_phase (self, None) =
           Done (st\<lparr>journal := journal st @ [([lhs self, rhs self], [])]\<rparr>,
                 self\<lparr>out_meta := (get_out_meta (reduce_op self) (params self) (meta l, meta r) (out_meta self))
                                      \<lparr>fmt_id := get_tensor_ftm (factory self) ty\<rparr>\<rparr>,
                 Some (get_tensor_size (factory self)
                        ((get_out_meta (reduce_op self) (params self) (meta l, meta r) (out_meta self))
                                      \<lparr>fmt_id := get_tensor_ftm (factory self) ty\<rparr>)))"
  using l r ty by (simp add: local_transaction_def metadata_phase_def Let_def)

lemma kernel_transaction:
  assumes l: "tensors st (lhs self) = Some l" and r: "tensors st (rhs self) = Some r"
    and slot: "allot st (tensors st) TID_NONE n = Some (i, slot)"
  shows "local_transaction st [lhs self, rhs self] [(TID_NONE, n)] kernel_phase self =
           Done (st\<lparr>tensors := (tensors st)(i \<mapsto> call_ud (reduce_op self) (params self) (l, r)
                                                    (init_tensor (factory self) slot (out_meta self))),
                    journal := journal st @ [([lhs self, rhs self], [(TID_NONE, n)])]\<rparr>,
                 self\<lparr>out_tid := i\<rparr>)"
  using l r slot by (simp add: local_transaction_def kernel_phase_def Let_def)

lemma kernel_transaction_denied:
  assumes "allot st (tensors st) TID_NONE n = None"
  shows "local_transaction st [lhs self, rhs self] [(TID_NONE, n)] kernel_phase self =
           Throws ReservationFailure (st, self)"
  using assms by (simp add: local_transaction_def split: option.splits)

text \<open>
  C3, as the code has it. Let the store hold \<open>l\<close> under \<^verbatim>\<open>lhs\<close> and \<open>r\<close> under \<^verbatim>\<open>rhs\<close>, let the
  kernel declare an output type, and let \<open>M\<close> be the metadata that the kernel's
  \<^verbatim>\<open>get_out_meta\<close> infers from the metadata of \<open>l\<close> and \<open>r\<close>, with its format id replaced by
  the id that the registry gives for the kernel's first output type. When the store
  allots the id \<open>i\<close> to the slot asked for, \<^verbatim>\<open>apply\<close> returns after two granted transactions,
  the first reading \<^verbatim>\<open>lhs\<close> and \<^verbatim>\<open>rhs\<close> and creating nothing, the second reading them again
  and creating one tensor with no id of its own and the size that the registry gives for
  \<open>M\<close>; the operator's output metadata is \<open>M\<close> and its output id is \<open>i\<close>; and the store holds
  under \<open>i\<close>, beside what it held, what the kernel's \<^verbatim>\<open>call_ud\<close> made, from \<open>l\<close> and \<open>r\<close>, of
  the slot that the registry initialised with \<open>M\<close>.
\<close>

theorem apply_materialises:
  assumes l: "tensors st (lhs self) = Some l" and r: "tensors st (rhs self) = Some r"
    and ty: "outputTypes (reduce_op self) = ty # tys"
    and M: "M = (get_out_meta (reduce_op self) (params self) (meta l, meta r) (out_meta self))
                  \<lparr>fmt_id := get_tensor_ftm (factory self) ty\<rparr>"
    and slot: "allot st (tensors st) TID_NONE (get_tensor_size (factory self) M) = Some (i, slot)"
  shows "\<exists>st' self'.
           partial_reduce_op_apply st self = Done (st', self') \<and>
           journal st' = journal st @ [([lhs self, rhs self], []),
                                       ([lhs self, rhs self], [(TID_NONE, get_tensor_size (factory self) M)])] \<and>
           out_tid self' = i \<and> out_meta self' = M \<and>
           tensors st' = (tensors st)(i \<mapsto> call_ud (reduce_op self) (params self) (l, r)
                                               (init_tensor (factory self) slot M))"
proof -
  let ?st1 = "st\<lparr>journal := journal st @ [([lhs self, rhs self], [])]\<rparr>"
  let ?self1 = "self\<lparr>out_meta := M\<rparr>"
  have one: "local_transaction st [lhs self, rhs self] [] metadata_phase (self, None) =
               Done (?st1, ?self1, Some (get_tensor_size (factory self) M))"
    unfolding M by (rule metadata_transaction [OF l r ty])
  have two: "local_transaction ?st1 [lhs ?self1, rhs ?self1] [(TID_NONE, get_tensor_size (factory self) M)]
               kernel_phase ?self1 =
             Done (?st1\<lparr>tensors := (tensors ?st1)(i \<mapsto> call_ud (reduce_op ?self1) (params ?self1) (l, r)
                                                    (init_tensor (factory ?self1) slot (out_meta ?self1))),
                    journal := journal ?st1 @ [([lhs ?self1, rhs ?self1], [(TID_NONE, get_tensor_size (factory self) M)])]\<rparr>,
                 ?self1\<lparr>out_tid := i\<rparr>)"
    by (rule kernel_transaction) (simp_all add: l r slot)
  have "partial_reduce_op_apply st self =
          Done (?st1\<lparr>tensors := (tensors st)(i \<mapsto> call_ud (reduce_op self) (params self) (l, r)
                                                    (init_tensor (factory self) slot M)),
                    journal := journal ?st1 @ [([lhs self, rhs self], [(TID_NONE, get_tensor_size (factory self) M)])]\<rparr>,
                 ?self1\<lparr>out_tid := i\<rparr>)"
    using two by (simp add: partial_reduce_op_apply_def one)
  then show ?thesis by simp
qed

theorem apply_materialises_witness:
  "tensors (store_example 100) (lhs op_example) = Some \<lparr>meta = \<lparr>fmt_id = 7, extra = 1\<rparr>, content = 20\<rparr> \<and>
   tensors (store_example 100) (rhs op_example) = Some \<lparr>meta = \<lparr>fmt_id = 7, extra = 1\<rparr>, content = 22\<rparr> \<and>
   outputTypes (reduce_op op_example) = [''dense''] \<and>
   allot (store_example 100) (tensors (store_example 100)) TID_NONE 24 = Some (5, blank_example) \<and>
   (\<exists>st' self'.
      partial_reduce_op_apply (store_example 100) op_example = Done (st', self') \<and>
      journal st' = [([0, 1], []), ([0, 1], [(TID_NONE, 24)])] \<and>
      out_tid self' = 5 \<and> out_meta self' = \<lparr>fmt_id = 7, extra = 1\<rparr> \<and>
      tensors st' 5 = Some \<lparr>meta = \<lparr>fmt_id = 7, extra = 1\<rparr>, content = 42\<rparr>)"
  using apply_materialises [where st = "store_example 100" and self = op_example
      and l = "\<lparr>meta = \<lparr>fmt_id = 7, extra = 1\<rparr>, content = 20\<rparr>"
      and r = "\<lparr>meta = \<lparr>fmt_id = 7, extra = 1\<rparr>, content = 22\<rparr>"
      and ty = "''dense''" and tys = "[]" and M = "\<lparr>fmt_id = 7, extra = 1\<rparr>"
      and i = 5 and slot = blank_example]
  by (auto simp: store_example_def op_example_def add_example_def factory_example_def blank_example_def)

text \<open>
  C3 as stated fails where it says that the stored tensor has the metadata that the
  kernel inferred. \<^verbatim>\<open>apply\<close> overwrites the format id of the inferred metadata with the
  registry's id for the kernel's output type: a kernel that infers the format id 99 finds
  7 in the store. And the kernel's \<^verbatim>\<open>call_ud\<close> is given the whole output tensor to write: a
  kernel that writes the metadata too leaves its own there, not the inferred one.
\<close>

theorem apply_metadata_counterexample:
  "get_out_meta relabel_example () (\<lparr>fmt_id = 7, extra = 1\<rparr>, \<lparr>fmt_id = 7, extra = 1\<rparr>) (out_meta op_example)
     = \<lparr>fmt_id = 99, extra = 1\<rparr> \<and>
   (\<exists>st' self'.
      partial_reduce_op_apply (store_example 100) (op_example\<lparr>reduce_op := relabel_example\<rparr>) = Done (st', self') \<and>
      out_tid self' = 5 \<and>
      tensors st' 5 = Some \<lparr>meta = \<lparr>fmt_id = 7, extra = 1\<rparr>, content = 42\<rparr>) \<and>
   get_out_meta scrub_example () (\<lparr>fmt_id = 7, extra = 1\<rparr>, \<lparr>fmt_id = 7, extra = 1\<rparr>) (out_meta op_example)
     = \<lparr>fmt_id = 7, extra = 1\<rparr> \<and>
   (\<exists>st' self'.
      partial_reduce_op_apply (store_example 100) (op_example\<lparr>reduce_op := scrub_example\<rparr>) = Done (st', self') \<and>
      out_tid self' = 5 \<and> out_meta self' = \<lparr>fmt_id = 7, extra = 1\<rparr> \<and>
      tensors st' 5 = Some \<lparr>meta = \<lparr>fmt_id = 0, extra = 0\<rparr>, content = 42\<rparr>)"
  by (simp add: partial_reduce_op_apply_def local_transaction_def metadata_phase_def kernel_phase_def
      store_example_def op_example_def relabel_example_def scrub_example_def factory_example_def
      blank_example_def Let_def)

lemma local_transaction_throws:
  "local_transaction st gets creates body c = Throws f (st', c') \<Longrightarrow> st' = st \<and> c' = c"
  by (auto simp: local_transaction_def split: option.splits)

lemma metadata_phase_keeps:
  "metadata_phase res (self, x) = Some (res', self', y) \<Longrightarrow> res' = res \<and> out_tid self' = out_tid self"
  by (auto simp: metadata_phase_def Let_def split: list.splits)

lemma metadata_transaction_done:
  assumes "local_transaction st gets [] metadata_phase (self, x) = Done (st1, self1, y)"
  shows "tensors st1 = tensors st \<and> out_tid self1 = out_tid self"
  using assms
  by (auto simp: local_transaction_def split: option.splits dest!: metadata_phase_keeps)

lemma apply_throws_nothing_new:
  assumes a: "partial_reduce_op_apply st self = Throws f (st', self')"
  shows "out_tid self' = out_tid self \<and> tensors st' = tensors st"
proof (cases "local_transaction st [lhs self, rhs self] [] metadata_phase (self, None)")
  case (Done x)
  obtain st1 self1 y where x: "x = (st1, self1, y)" by (cases x) auto
  from a Done x obtain n where y: "y = Some n" by (cases y) (auto simp: partial_reduce_op_apply_def)
  from a Done x y
  have "local_transaction st1 [lhs self1, rhs self1] [(TID_NONE, n)] kernel_phase self1 = Throws f (st', self')"
    by (simp add: partial_reduce_op_apply_def)
  then have "st' = st1 \<and> self' = self1" by (rule local_transaction_throws)
  with metadata_transaction_done [OF Done [unfolded x]] show ?thesis by simp
next
  case (Throws g x)
  obtain st1 self1 y where x: "x = (st1, self1, y)" by (cases x) auto
  from Throws x have "st1 = st \<and> (self1, y) = (self, None)" by (intro local_transaction_throws) simp
  with a Throws x show ?thesis by (simp add: partial_reduce_op_apply_def)
next
  case Undefined
  with a show ?thesis by (simp add: partial_reduce_op_apply_def)
qed

lemma apply_reservation_denied:
  assumes l: "tensors st (lhs self) = Some l" and r: "tensors st (rhs self) = Some r"
    and ty: "outputTypes (reduce_op self) = ty # tys"
    and denied: "allot st (tensors st) TID_NONE
      (get_tensor_size (factory self)
         ((get_out_meta (reduce_op self) (params self) (meta l, meta r) (out_meta self))
            \<lparr>fmt_id := get_tensor_ftm (factory self) ty\<rparr>)) = None"
  shows "\<exists>st' self'. partial_reduce_op_apply st self = Throws ReservationFailure (st', self')"
proof -
  let ?M = "(get_out_meta (reduce_op self) (params self) (meta l, meta r) (out_meta self))
            \<lparr>fmt_id := get_tensor_ftm (factory self) ty\<rparr>"
  let ?st1 = "st\<lparr>journal := journal st @ [([lhs self, rhs self], [])]\<rparr>"
  let ?self1 = "self\<lparr>out_meta := ?M\<rparr>"
  have one: "local_transaction st [lhs self, rhs self] [] metadata_phase (self, None) =
               Done (?st1, ?self1, Some (get_tensor_size (factory self) ?M))"
    by (rule metadata_transaction [OF l r ty])
  have two: "local_transaction ?st1 [lhs ?self1, rhs ?self1] [(TID_NONE, get_tensor_size (factory self) ?M)]
               kernel_phase ?self1 = Throws ReservationFailure (?st1, ?self1)"
    using denied by (intro kernel_transaction_denied) simp
  have "partial_reduce_op_apply st self = Throws ReservationFailure (?st1, ?self1)"
    using two by (simp add: partial_reduce_op_apply_def one)
  then show ?thesis by blast
qed

text \<open>
  C4. Whenever a denial leaves \<^verbatim>\<open>apply\<close>, the output id is what it was before the call and
  the store holds the tensors it held before. And when the store holds \<^verbatim>\<open>lhs\<close> and \<^verbatim>\<open>rhs\<close>,
  the kernel declares an output type, and the store does not allot the slot that the
  second transaction asks for, \<^verbatim>\<open>apply\<close> does end with that denial.
\<close>

theorem apply_denied:
  "(\<forall>f st' self'. partial_reduce_op_apply st self = Throws f (st', self') \<longrightarrow>
       out_tid self' = out_tid self \<and> tensors st' = tensors st) \<and>
   (tensors st (lhs self) = Some l \<and> tensors st (rhs self) = Some r \<and>
    outputTypes (reduce_op self) = ty # tys \<and>
    allot st (tensors st) TID_NONE
      (get_tensor_size (factory self)
         ((get_out_meta (reduce_op self) (params self) (meta l, meta r) (out_meta self))
            \<lparr>fmt_id := get_tensor_ftm (factory self) ty\<rparr>)) = None \<longrightarrow>
    (\<exists>st' self'. partial_reduce_op_apply st self = Throws ReservationFailure (st', self') \<and>
       out_tid self' = out_tid self \<and> tensors st' = tensors st))"
  using apply_throws_nothing_new [of st self] apply_reservation_denied [of st self l r ty tys]
  by blast

theorem apply_denied_witness:
  "tensors (store_example 10) (lhs op_example) = Some \<lparr>meta = \<lparr>fmt_id = 7, extra = 1\<rparr>, content = 20\<rparr> \<and>
   tensors (store_example 10) (rhs op_example) = Some \<lparr>meta = \<lparr>fmt_id = 7, extra = 1\<rparr>, content = 22\<rparr> \<and>
   outputTypes (reduce_op op_example) = [''dense''] \<and>
   allot (store_example 10) (tensors (store_example 10)) TID_NONE 24 = None \<and>
   (\<exists>st' self'.
      partial_reduce_op_apply (store_example 10) op_example = Throws ReservationFailure (st', self') \<and>
      out_tid self' = 99 \<and> tensors st' = tensors (store_example 10))"
  using apply_denied [where st = "store_example 10" and self = op_example
      and l = "\<lparr>meta = \<lparr>fmt_id = 7, extra = 1\<rparr>, content = 20\<rparr>"
      and r = "\<lparr>meta = \<lparr>fmt_id = 7, extra = 1\<rparr>, content = 22\<rparr>"
      and ty = "''dense''" and tys = "[]"]
  by (auto simp: store_example_def op_example_def add_example_def factory_example_def blank_example_def)

end
